theory Spec2Isabelle
  imports Main
begin

section \<open>Data model\<close>

text \<open>
  Exceptions of the Python source, as values. \<open>FileNotFoundError\<close> is a subclass of
  \<open>OSError\<close> in Python; \<open>is_OSError\<close> below is the \<open>except OSError\<close> test.
  \<open>OSError\<close> and \<open>FileNotFoundError\<close> carry their \<open>strerror\<close>.
\<close>

datatype error =
    TutorError string
  | KeyError string
  | NotImplementedError
  | OSError string
  | FileNotFoundError string
  | NoCredentialsError
  | OtherError string

fun is_OSError :: "error \<Rightarrow> bool" where
  "is_OSError (OSError _) = True"
| "is_OSError (FileNotFoundError _) = True"
| "is_OSError _ = False"

fun strerror :: "error \<Rightarrow> string" where
  "strerror (OSError s) = s"
| "strerror (FileNotFoundError s) = s"
| "strerror _ = []"

text \<open>
  Values of the configuration (\<open>tutor.types.Config\<close>): a dict from string keys to
  typed values. \<open>truthy\<close> is Python's truth test (\<open>if config["RUN_LMS"]:\<close>).
\<close>

datatype cvalue = VStr string | VBool bool | VInt int | VNone

type_synonym config = "string \<rightharpoonup> cvalue"

fun truthy :: "cvalue \<Rightarrow> bool" where
  "truthy (VStr s) = (s \<noteq> [])"
| "truthy (VBool b) = b"
| "truthy (VInt i) = (i \<noteq> 0)"
| "truthy VNone = False"

text \<open>\<open>config[key]\<close>: a missing key raises \<open>KeyError\<close>.\<close>

definition getitem :: "config \<Rightarrow> string \<Rightarrow> error + cvalue" where
  "getitem cfg key = (case cfg key of None \<Rightarrow> Inl (KeyError key) | Some v \<Rightarrow> Inr v)"

text \<open>
  The part of the machine the commands read and change: the set of paths that exist
  (\<open>os.path.exists\<close>), whether standard input is a terminal (\<open>utils.is_a_tty\<close>), the
  argument vectors handed to the external docker-compose process so far, the
  lines printed with \<open>fmt.echo_info\<close>, the tar archives written (path to the list of
  members, each an entry name with the path it was read from), and the calls of
  \<open>s3.upload_file\<close> made (file, bucket, key).
\<close>

record world =
  fs :: "string set"
  tty :: bool
  calls :: "string list list"
  echoed :: "string list"
  tars :: "string \<rightharpoonup> (string \<times> string) list"
  uploads :: "(string \<times> cvalue \<times> string) list"

type_synonym 'a action = "world \<Rightarrow> (error + 'a) \<times> world"

text \<open>
  Collaborators of the two modules whose code is outside them (\<open>tutor.env\<close>,
  \<open>tutor.utils\<close>, \<open>tutor.config\<close>, \<open>tutor.types\<close>): they are parameters of the model.
  \<open>tool args fs\<close> is what \<open>utils.docker_compose(*args)\<close> does on a filesystem \<open>fs\<close>:
  it returns an exit code or raises, and leaves a filesystem behind.
  \<open>subprocess_run\<close> and \<open>ensure_file_directory_exists\<close> raise or leave a filesystem
  behind; \<open>s3_upload_file access secret file bucket key fs\<close> is the outcome of
  \<open>boto3.client('s3', ...).upload_file(file, bucket, key)\<close>: \<open>None\<close> when it returns,
  the exception otherwise. \<open>os_remove_error path fs\<close> is the exception \<open>os.remove(path)\<close>
  raises on an existing path (a permission denied, for instance), \<open>None\<close> when it
  removes the path.
\<close>

record env =
  pathjoin :: "string \<Rightarrow> string list \<Rightarrow> string"
  load :: "string \<Rightarrow> error + config"
  get_typed_str :: "config \<Rightarrow> string \<Rightarrow> error + string"
  tool :: "string list \<Rightarrow> string set \<Rightarrow> (error + int) \<times> string set"
  data_path :: "string \<Rightarrow> string list \<Rightarrow> string"
  root_dir :: "string \<Rightarrow> string"
  get_path :: "string \<Rightarrow> string \<Rightarrow> string"
  parse_volumes :: "string list \<Rightarrow> error + string list \<times> string list"
  ensure_file_directory_exists :: "string \<Rightarrow> string set \<Rightarrow> error + string set"
  subprocess_run :: "string list \<Rightarrow> string set \<Rightarrow> error + string set"
  s3_upload_file ::
    "cvalue \<Rightarrow> cvalue \<Rightarrow> string \<Rightarrow> cvalue \<Rightarrow> string \<Rightarrow> string set \<Rightarrow> error option"
  os_remove_error :: "string \<Rightarrow> string set \<Rightarrow> error option"

text \<open>\<open>ComposeJobRunner\<close> (compose.py, lines 21-26): the fields of the object.\<close>

record runner =
  root :: string
  config :: config
  project_name :: string
  docker_compose_files :: "string list"
  docker_compose_job_files :: "string list"

definition ComposeJobRunner :: "string \<Rightarrow> config \<Rightarrow> runner" where
  "ComposeJobRunner rt cfg =
     \<lparr>root = rt, config = cfg, project_name = [],
      docker_compose_files = [], docker_compose_job_files = []\<rparr>"

section \<open>Running docker-compose\<close>

text \<open>
  \<open>utils.docker_compose(*args)\<close>: the external process runs on the current filesystem;
  the invocation is recorded.
\<close>

definition utils_docker_compose :: "env \<Rightarrow> string list \<Rightarrow> int action" where
  "utils_docker_compose e args w =
     (case tool e args (fs w) of
        (r, fs') \<Rightarrow> (r, w\<lparr>fs := fs', calls := calls w @ [args]\<rparr>))"

text \<open>
  The loop of \<open>ComposeJobRunner.docker_compose\<close> (lines 32-35): \<open>args\<close> is the
  accumulator, \<open>args += ["-f", path]\<close> for each path that exists.
\<close>

fun compose_file_args :: "string set \<Rightarrow> string list \<Rightarrow> string list \<Rightarrow> string list" where
  "compose_file_args exist args [] = args"
| "compose_file_args exist args (docker_compose_path # rest) =
     compose_file_args exist
       (if docker_compose_path \<in> exist then args @ [''-f'', docker_compose_path] else args)
       rest"

definition docker_compose :: "env \<Rightarrow> runner \<Rightarrow> string list \<Rightarrow> int action" where
  "docker_compose e self command w =
     (let args = compose_file_args (fs w) [] (docker_compose_files self)
      in utils_docker_compose e (args @ [''--project-name'', project_name self] @ command) w)"

text \<open>
  The loop of \<open>ComposeJobRunner.run_job\<close> (lines 45-49): each job file is joined to the
  root with \<open>tutor_env.pathjoin\<close> first, and the joined path is tested and passed on.
\<close>

fun job_file_args :: "env \<Rightarrow> string \<Rightarrow> string set \<Rightarrow> string list \<Rightarrow> string list \<Rightarrow> string list" where
  "job_file_args e rt exist run_command [] = run_command"
| "job_file_args e rt exist run_command (docker_compose_path # rest) =
     (let path = pathjoin e rt [docker_compose_path]
      in job_file_args e rt exist
           (if path \<in> exist then run_command @ [''-f'', path] else run_command) rest)"

definition run_job :: "env \<Rightarrow> runner \<Rightarrow> string \<Rightarrow> string \<Rightarrow> int action" where
  "run_job e self service command w =
     (let run_command = job_file_args e (root self) (fs w) [] (docker_compose_job_files self);
          run_command = run_command @ [''run'', ''--rm''];
          run_command = (if \<not> tty w then run_command @ [''-T''] else run_command);
          job_service_name = service @ ''-job''
      in docker_compose e self
           (run_command @ [job_service_name, ''sh'', ''-e'', ''-c'', command]) w)"

section \<open>The development profile\<close>

text \<open>
  \<open>DevJobRunner.__init__\<close> (dev.py, lines 13-31). \<open>get_typed\<close> raises when the key
  \<open>DEV_PROJECT_NAME\<close> does not hold a string; the two lists are extended in the order
  the source writes them.
\<close>

definition DevJobRunner :: "env \<Rightarrow> string \<Rightarrow> config \<Rightarrow> error + runner" where
  "DevJobRunner e rt cfg =
     (let self = ComposeJobRunner rt cfg
      in case get_typed_str e (config self) ''DEV_PROJECT_NAME'' of
           Inl err \<Rightarrow> Inl err
         | Inr name \<Rightarrow>
             Inr (self\<lparr>project_name := name,
                       docker_compose_files := docker_compose_files self @
                         [pathjoin e (root self) [''local'', ''docker-compose.yml''],
                          pathjoin e (root self) [''dev'', ''docker-compose.yml''],
                          pathjoin e (root self) [''local'', ''docker-compose.override.yml''],
                          pathjoin e (root self) [''dev'', ''docker-compose.override.yml'']],
                       docker_compose_job_files := docker_compose_job_files self @
                         [pathjoin e (root self) [''local'', ''docker-compose.jobs.yml''],
                          pathjoin e (root self) [''dev'', ''docker-compose.jobs.yml''],
                          pathjoin e (root self) [''local'', ''docker-compose.jobs.override.yml''],
                          pathjoin e (root self) [''dev'', ''docker-compose.jobs.override.yml'']]\<rparr>))"

text \<open>
  \<open>BaseComposeContext.job_runner\<close> raises \<open>NotImplementedError\<close> (compose.py, lines
  64-66); \<open>DevContext.job_runner\<close> builds a \<open>DevJobRunner\<close> (dev.py, lines 34-36).
  A context is its root and its \<open>job_runner\<close> method.
\<close>

record compose_context =
  ctx_root :: string
  job_runner :: "config \<Rightarrow> error + runner"

definition BaseComposeContext :: "string \<Rightarrow> compose_context" where
  "BaseComposeContext rt = \<lparr>ctx_root = rt, job_runner = (\<lambda>cfg. Inl NotImplementedError)\<rparr>"

definition DevContext :: "env \<Rightarrow> string \<Rightarrow> compose_context" where
  "DevContext e rt = \<lparr>ctx_root = rt, job_runner = DevJobRunner e rt\<rparr>"

section \<open>Sequencing\<close>

text \<open>
  Statements in sequence: an exception of the first ends the run with the world as it
  is then. \<open>lift\<close> is a computation that reads nothing of the world, \<open>discard\<close> drops
  a return value the caller does not use, \<open>echo_info\<close> prints a line.
\<close>

definition then_do :: "'a action \<Rightarrow> ('a \<Rightarrow> 'b action) \<Rightarrow> 'b action" where
  "then_do m f w = (case m w of (Inl err, w') \<Rightarrow> (Inl err, w') | (Inr x, w') \<Rightarrow> f x w')"

definition lift :: "error + 'a \<Rightarrow> 'a action" where
  "lift r w = (r, w)"

definition discard :: "'a action \<Rightarrow> unit action" where
  "discard m = then_do m (\<lambda>x w. (Inr (), w))"

definition echo_info :: "string \<Rightarrow> unit action" where
  "echo_info msg w = (Inr (), w\<lparr>echoed := echoed w @ [msg]\<rparr>)"

section \<open>The restart command\<close>

text \<open>
  The \<open>for service in services\<close> loop of \<open>restart\<close> (compose.py, lines 126-133), with
  \<open>command\<close> as the accumulator.
\<close>

fun restart_services :: "config \<Rightarrow> string list \<Rightarrow> string list \<Rightarrow> error + string list" where
  "restart_services cfg command [] = Inr command"
| "restart_services cfg command (service # rest) =
     (if service = ''openedx'' then
        (case getitem cfg ''RUN_LMS'' of
           Inl err \<Rightarrow> Inl err
         | Inr run_lms \<Rightarrow>
             (let command1 = (if truthy run_lms then command @ [''lms'', ''lms-worker'']
                              else command)
              in case getitem cfg ''RUN_CMS'' of
                   Inl err \<Rightarrow> Inl err
                 | Inr run_cms \<Rightarrow>
                     restart_services cfg
                       (if truthy run_cms then command1 @ [''cms'', ''cms-worker'']
                        else command1) rest))
      else restart_services cfg (command @ [service]) rest)"

definition restart_command :: "config \<Rightarrow> string list \<Rightarrow> error + string list" where
  "restart_command cfg services =
     (if ''all'' \<in> set services then Inr [''restart'']
      else restart_services cfg [''restart''] services)"

definition restart :: "env \<Rightarrow> compose_context \<Rightarrow> string list \<Rightarrow> unit action" where
  "restart e ctx services =
     then_do (lift (load e (ctx_root ctx))) (\<lambda>cfg.
     then_do (lift (restart_command cfg services)) (\<lambda>command.
     then_do (lift (job_runner ctx cfg)) (\<lambda>r.
     discard (docker_compose e r command))))"

section \<open>The dc command\<close>

text \<open>
  The \<open>for volume_arg in volumes\<close> loop of \<open>dc_command\<close> (compose.py, lines 288-301).
  \<open>bindmount_command.name\<close> is \<open>bindmount\<close> (line 221).
\<close>

definition missing_bind_mount :: "string \<Rightarrow> error" where
  "missing_bind_mount host_bind_path =
     TutorError (''Bind-mount volume directory '' @ host_bind_path @
       '' does not exist. It must first be created with the '' @ [CHR 0x27] @ ''bindmount'' @
       [CHR 0x27] @ '' command.'')"

fun dc_volume_args ::
  "env \<Rightarrow> string \<Rightarrow> string set \<Rightarrow> string list \<Rightarrow> string list \<Rightarrow> error + string list" where
  "dc_volume_args e rt exist volume_args [] = Inr volume_args"
| "dc_volume_args e rt exist volume_args (volume_arg # rest) =
     (if CHR '':'' \<notin> set volume_arg then
        (let host_bind_path = get_path e rt volume_arg
         in if host_bind_path \<notin> exist then Inl (missing_bind_mount host_bind_path)
            else dc_volume_args e rt exist
                   (volume_args @ [''--volume'', host_bind_path @ '':'' @ volume_arg]) rest)
      else dc_volume_args e rt exist (volume_args @ [''--volume'', volume_arg]) rest)"

definition dc_command :: "env \<Rightarrow> compose_context \<Rightarrow> string \<Rightarrow> string list \<Rightarrow> unit action" where
  "dc_command e ctx command args =
     then_do (lift (load e (ctx_root ctx))) (\<lambda>cfg.
     then_do (lift (parse_volumes e args)) (\<lambda>(volumes, non_volume_args).
     then_do (\<lambda>w. (dc_volume_args e (ctx_root ctx) (fs w) [] volumes, w)) (\<lambda>volume_args.
     then_do (lift (job_runner ctx cfg)) (\<lambda>r.
     discard (docker_compose e r (command # volume_args @ non_volume_args))))))"

section \<open>The backup command\<close>

text \<open>
  \<open>"{}".format(v)\<close> on a configuration value: Python's \<open>str\<close>.
\<close>

fun str_nat :: "nat \<Rightarrow> string" where
  "str_nat n =
     (if n < 10 then [char_of (48 + n)]
      else str_nat (n div 10) @ [char_of (48 + n mod 10)])"

definition str_int :: "int \<Rightarrow> string" where
  "str_int i = (if i < 0 then CHR ''-'' # str_nat (nat (- i)) else str_nat (nat i))"

fun py_str :: "cvalue \<Rightarrow> string" where
  "py_str (VStr s) = s"
| "py_str (VBool b) = (if b then ''True'' else ''False'')"
| "py_str (VInt i) = str_int i"
| "py_str VNone = ''None''"

text \<open>\<open>os.path.basename\<close> (posixpath): what follows the last slash.\<close>

definition basename :: "string \<Rightarrow> string" where
  "basename p = rev (takeWhile (\<lambda>c. c \<noteq> CHR ''/'') (rev p))"

text \<open>
  \<open>tarfile.open(path, 'w:gz')\<close> creates the file with no member; \<open>tar.add(dir,
  arcname=...)\<close> appends a member, and raises \<open>FileNotFoundError\<close> when \<open>dir\<close> does not
  exist. The loop of lines 348-349:
\<close>

definition tarfile_open :: "string \<Rightarrow> unit action" where
  "tarfile_open path w = (Inr (), w\<lparr>fs := insert path (fs w), tars := (tars w)(path \<mapsto> [])\<rparr>)"

definition tar_add :: "string \<Rightarrow> string \<Rightarrow> string \<Rightarrow> unit action" where
  "tar_add tar name arcname w =
     (if name \<in> fs w
      then (Inr (), w\<lparr>tars := (tars w)(tar \<mapsto>
              (case tars w tar of None \<Rightarrow> [] | Some members \<Rightarrow> members) @ [(arcname, name)])\<rparr>)
      else (Inl (FileNotFoundError name), w))"

fun tar_add_all :: "string \<Rightarrow> string list \<Rightarrow> unit action" where
  "tar_add_all tar [] w = (Inr (), w)"
| "tar_add_all tar (dir # rest) w =
     (case tar_add tar dir (basename dir) w of
        (Inl err, w') \<Rightarrow> (Inl err, w')
      | (Inr u, w') \<Rightarrow> tar_add_all tar rest w')"

text \<open>
  \<open>if os.path.exists(path): os.remove(path)\<close>, as it stands at lines 355-356 and
  374-375.
\<close>

definition os_remove :: "env \<Rightarrow> string \<Rightarrow> unit action" where
  "os_remove e path w =
     (case os_remove_error e path (fs w) of
        None \<Rightarrow> (Inr (), w\<lparr>fs := fs w - {path}\<rparr>)
      | Some err \<Rightarrow> (Inl err, w))"

definition remove_if_exists :: "env \<Rightarrow> string \<Rightarrow> unit action" where
  "remove_if_exists e path w = (if path \<in> fs w then os_remove e path w else (Inr (), w))"

text \<open>
  Removal of the two dump files (lines 353-358): the body of the \<open>try\<close>, then its
  \<open>except OSError\<close>. \<open>subprocess.run\<close> raises \<open>OSError\<close> when the process cannot be
  started.
\<close>

definition backup_cleanup :: "env \<Rightarrow> string \<Rightarrow> string \<Rightarrow> unit action" where
  "backup_cleanup e mongodb_dump_path mysql_dump_path w =
     (case then_do
             (\<lambda>w0. case subprocess_run e [''sudo'', ''rm'', ''-rf'', mongodb_dump_path] (fs w0) of
                      Inl err \<Rightarrow> (Inl err, w0)
                    | Inr fs' \<Rightarrow> (Inr (), w0\<lparr>fs := fs'\<rparr>))
             (\<lambda>u. remove_if_exists e mysql_dump_path) w of
        (Inl err, w') \<Rightarrow>
          (if is_OSError err
           then echo_info (''Delete mongodb or mysql dump files '' @ strerror err @
                  '' are failed'') w'
           else (Inl err, w'))
      | (Inr u, w') \<Rightarrow> (Inr (), w'))"

text \<open>
  The upload to S3 (lines 360-381): the body of the \<open>try\<close> (the upload, its
  confirmation, the removal of the archive), then the two \<open>except\<close> clauses; any other
  exception goes up.
\<close>

definition backup_upload :: "env \<Rightarrow> config \<Rightarrow> string \<Rightarrow> string \<Rightarrow> unit action" where
  "backup_upload e cfg backup_path file_name w =
     (if ''BACKUP_ENABLED'' \<in> dom cfg then
        (case getitem cfg ''BACKUP_ENABLED'' of
           Inl err \<Rightarrow> (Inl err, w)
         | Inr enabled \<Rightarrow>
             if truthy enabled then
               then_do (lift (getitem cfg ''BACKUP_S3_ACCESS_KEY'')) (\<lambda>s3_access_key.
               then_do (lift (getitem cfg ''BACKUP_S3_SECRET_KEY'')) (\<lambda>s3_secret_key.
               then_do (lift (getitem cfg ''BACKUP_S3_BUCKET_NAME'')) (\<lambda>s3_bucket_name w0.
                 (case then_do
                         (\<lambda>w1. case s3_upload_file e s3_access_key s3_secret_key backup_path
                                        s3_bucket_name file_name (fs w1) of
                                  None \<Rightarrow>
                                    (Inr (), w1\<lparr>uploads := uploads w1 @
                                               [(backup_path, s3_bucket_name, file_name)]\<rparr>)
                                | Some err \<Rightarrow>
                                    (Inl err, w1\<lparr>uploads := uploads w1 @
                                                [(backup_path, s3_bucket_name, file_name)]\<rparr>))
                         (\<lambda>u. then_do
                                 (echo_info (''Uploaded backup file '' @ file_name @
                                    '' to S3 successfully''))
                                 (\<lambda>u. remove_if_exists e backup_path)) w0 of
                    (Inl err, w') \<Rightarrow>
                      (case err of
                         FileNotFoundError x \<Rightarrow>
                           echo_info (''The backup file '' @ file_name @ '' was not found'') w'
                       | NoCredentialsError \<Rightarrow>
                           echo_info ''The S3 credential is not available'' w'
                       | _ \<Rightarrow> (Inl err, w'))
                  | (Inr u, w') \<Rightarrow> (Inr (), w'))))) w
             else (Inr (), w))
      else (Inr (), w))"

text \<open>
  \<open>backup\<close> (lines 307-381). \<open>now\<close> is \<open>datetime.now().strftime('%Y%m%d_%H%M%S')\<close>,
  read first. The return values of the two \<open>runner.docker_compose\<close> calls are not
  looked at.
\<close>

definition backup :: "env \<Rightarrow> compose_context \<Rightarrow> string \<Rightarrow> unit action" where
  "backup e ctx now =
     then_do (lift (load e (ctx_root ctx))) (\<lambda>cfg.
     then_do (lift (job_runner ctx cfg)) (\<lambda>r.
     then_do (docker_compose e r
                [''exec'', ''mongodb'', ''mongodump'',
                 ''--out=/data/db/dump_'' @ now @ ''.mongodb'']) (\<lambda>rc1.
     then_do (echo_info ''Exported mongo databases successfully'') (\<lambda>u.
     then_do (lift (getitem cfg ''MYSQL_ROOT_PASSWORD'')) (\<lambda>mysql_root_pwd.
     then_do (docker_compose e r
                ([''exec'', ''mysql''] @
                 [''mysqldump'', ''--all-databases'', ''-u'', ''root'',
                  ''--password='' @ py_str mysql_root_pwd,
                  ''--result-file=/var/lib/mysql/dump_'' @ now @ ''.sql''])) (\<lambda>rc2.
     then_do (echo_info ''Exported mysql databases successfully'') (\<lambda>u.
     (let mongodb_dump_path =
            data_path e (ctx_root ctx) [''mongodb/dump_'' @ now @ ''.mongodb''];
          mysql_dump_path = data_path e (ctx_root ctx) [''mysql/dump_'' @ now @ ''.sql''];
          dirFiles = [mongodb_dump_path, mysql_dump_path,
                      data_path e (ctx_root ctx) [''cms''],
                      data_path e (ctx_root ctx) [''lms''],
                      data_path e (ctx_root ctx) [''openedx-media'']];
          dirFiles = dirFiles @ [root_dir e (ctx_root ctx) @ ''/config.yml'']
      in
     then_do (lift (getitem cfg ''LMS_HOST'')) (\<lambda>lms_host.
     (let file_name = py_str lms_host @ ''_'' @ now @ ''.tar.gz'';
          backup_path = data_path e (ctx_root ctx) [''backup'', file_name]
      in
     then_do (\<lambda>w. case ensure_file_directory_exists e backup_path (fs w) of
                     Inl err \<Rightarrow> (Inl err, w)
                   | Inr fs' \<Rightarrow> (Inr (), w\<lparr>fs := fs'\<rparr>)) (\<lambda>u.
     then_do (tarfile_open backup_path) (\<lambda>u.
     then_do (tar_add_all backup_path dirFiles) (\<lambda>u.
     then_do (echo_info (''Created backup file '' @ file_name @ '' successfully'')) (\<lambda>u.
     then_do (backup_cleanup e mongodb_dump_path mysql_dump_path) (\<lambda>u.
     backup_upload e cfg backup_path file_name)))))))))))))))"

text \<open>
  What \<open>backup\<close> does once both exports have returned (lines 328-381): the archive,
  the removal of the dumps, the upload.
\<close>

definition backup_after_exports :: "env \<Rightarrow> compose_context \<Rightarrow> string \<Rightarrow> config \<Rightarrow> unit action" where
  "backup_after_exports e ctx now cfg =
     (let mongodb_dump_path =
            data_path e (ctx_root ctx) [''mongodb/dump_'' @ now @ ''.mongodb''];
          mysql_dump_path = data_path e (ctx_root ctx) [''mysql/dump_'' @ now @ ''.sql''];
          dirFiles = [mongodb_dump_path, mysql_dump_path,
                      data_path e (ctx_root ctx) [''cms''],
                      data_path e (ctx_root ctx) [''lms''],
                      data_path e (ctx_root ctx) [''openedx-media'']];
          dirFiles = dirFiles @ [root_dir e (ctx_root ctx) @ ''/config.yml'']
      in
     then_do (lift (getitem cfg ''LMS_HOST'')) (\<lambda>lms_host.
     (let file_name = py_str lms_host @ ''_'' @ now @ ''.tar.gz'';
          backup_path = data_path e (ctx_root ctx) [''backup'', file_name]
      in
     then_do (\<lambda>w. case ensure_file_directory_exists e backup_path (fs w) of
                     Inl err \<Rightarrow> (Inl err, w)
                   | Inr fs' \<Rightarrow> (Inr (), w\<lparr>fs := fs'\<rparr>)) (\<lambda>u.
     then_do (tarfile_open backup_path) (\<lambda>u.
     then_do (tar_add_all backup_path dirFiles) (\<lambda>u.
     then_do (echo_info (''Created backup file '' @ file_name @ '' successfully'')) (\<lambda>u.
     then_do (backup_cleanup e mongodb_dump_path mysql_dump_path) (\<lambda>u.
     backup_upload e cfg backup_path file_name))))))))"

section \<open>The argument vectors in the words of the specification\<close>

text \<open>
  \<open>-f <path>\<close> for every path of a list, and for every path of a file set that exists.
\<close>

definition dash_f :: "string list \<Rightarrow> string list" where
  "dash_f paths = concat (map (\<lambda>p. [''-f'', p]) paths)"

definition existing_file_args :: "string set \<Rightarrow> string list \<Rightarrow> string list" where
  "existing_file_args exist file_set = dash_f (filter (\<lambda>p. p \<in> exist) file_set)"

text \<open>
  The job invocation as the specification writes it:
  \<open>[-f <path>]* run --rm [-T] <service>-job sh -e -c <shell-command-string>\<close>.
\<close>

definition job_command :: "string list \<Rightarrow> bool \<Rightarrow> string \<Rightarrow> string \<Rightarrow> string list" where
  "job_command job_paths is_a_tty service command =
     dash_f job_paths @ [''run'', ''--rm''] @ (if is_a_tty then [] else [''-T'']) @
     [service @ ''-job'', ''sh'', ''-e'', ''-c'', command]"

text \<open>
  The precedence the specification gives for a profile's file set: the foundational
  file, its override variant, the profile's own file, its override variant.
\<close>

definition layered_precedence :: "env \<Rightarrow> string \<Rightarrow> string \<Rightarrow> string \<Rightarrow> string list" where
  "layered_precedence e rt profile stem =
     [pathjoin e rt [''local'', stem @ ''.yml''],
      pathjoin e rt [''local'', stem @ ''.override.yml''],
      pathjoin e rt [profile, stem @ ''.yml''],
      pathjoin e rt [profile, stem @ ''.override.yml'']]"

text \<open>
  The vector \<open>docker_compose\<close> delivers for a command on a filesystem, the two export
  commands of the backup, the name of the archive (\<open><host>_<timestamp>.tar.gz\<close>) and
  the items it is made from: the two dumps, the three data directories and the
  configuration file.
\<close>

definition compose_vector :: "string set \<Rightarrow> runner \<Rightarrow> string list \<Rightarrow> string list" where
  "compose_vector exist r command =
     existing_file_args exist (docker_compose_files r) @
     [''--project-name'', project_name r] @ command"

definition mongodb_command :: "string \<Rightarrow> string list" where
  "mongodb_command now =
     [''exec'', ''mongodb'', ''mongodump'', ''--out=/data/db/dump_'' @ now @ ''.mongodb'']"

definition mysql_command :: "cvalue \<Rightarrow> string \<Rightarrow> string list" where
  "mysql_command pwd now =
     [''exec'', ''mysql'', ''mysqldump'', ''--all-databases'', ''-u'', ''root'',
      ''--password='' @ py_str pwd, ''--result-file=/var/lib/mysql/dump_'' @ now @ ''.sql'']"

definition backup_file_name :: "cvalue \<Rightarrow> string \<Rightarrow> string" where
  "backup_file_name host now = py_str host @ ''_'' @ now @ ''.tar.gz''"

definition backup_sources :: "env \<Rightarrow> string \<Rightarrow> string \<Rightarrow> string list" where
  "backup_sources e rt now =
     [data_path e rt [''mongodb/dump_'' @ now @ ''.mongodb''],
      data_path e rt [''mysql/dump_'' @ now @ ''.sql''],
      data_path e rt [''cms''],
      data_path e rt [''lms''],
      data_path e rt [''openedx-media''],
      root_dir e rt @ ''/config.yml'']"

section \<open>A concrete environment\<close>

text \<open>
  \<open>os.path.join\<close> of Python's \<open>posixpath\<close>: a component that starts with a slash
  replaces what came before.
\<close>

fun os_path_join :: "string \<Rightarrow> string list \<Rightarrow> string" where
  "os_path_join a [] = a"
| "os_path_join a (b # p) =
     os_path_join
       (if b \<noteq> [] \<and> hd b = CHR ''/'' then b
        else if a = [] \<or> last a = CHR ''/'' then a @ b
        else a @ ''/'' @ b) p"

text \<open>
  Modelled from the spec: \<open>tutor.env\<close> (\<open>pathjoin\<close>, \<open>data_path\<close>, \<open>root_dir\<close>),
  \<open>tutor.bindmounts\<close> (\<open>get_path\<close>, \<open>parse_volumes\<close>), \<open>tutor.types.get_typed\<close> and
  \<open>tutor.utils.ensure_file_directory_exists\<close> are not among the sources. The path
  resolver "joins" a root and a relative logical path (4.1); the bind-mount resolver
  "joins root with a fixed volumes segment and the logical name" (4.5); the parser
  "scans a raw argument list for volume-flag occurrences" (4.5). The configuration,
  the behaviour of the external tool and the outcome of the upload are arguments.
\<close>

fun scan_volumes :: "string list \<Rightarrow> string list \<times> string list" where
  "scan_volumes (flag # v # rest) =
     (if flag = ''--volume'' \<or> flag = ''-v''
      then (case scan_volumes rest of (vs, others) \<Rightarrow> (v # vs, others))
      else (case scan_volumes (v # rest) of (vs, others) \<Rightarrow> (vs, flag # others)))"
| "scan_volumes args = ([], args)"

definition sample_env ::
  "config \<Rightarrow> (string list \<Rightarrow> string set \<Rightarrow> (error + int) \<times> string set) \<Rightarrow> error option \<Rightarrow> env" where
  "sample_env cfg run_tool outcome =
     \<lparr>pathjoin = os_path_join,
      load = (\<lambda>rt. Inr cfg),
      get_typed_str = (\<lambda>c key. case c key of
                         Some (VStr s) \<Rightarrow> Inr s
                       | _ \<Rightarrow> Inl (TutorError (''Invalid config entry: '' @ key))),
      tool = run_tool,
      data_path = (\<lambda>rt path. os_path_join rt (''data'' # path)),
      root_dir = (\<lambda>rt. rt),
      get_path = (\<lambda>rt name. os_path_join rt [''volumes'', name]),
      parse_volumes = (\<lambda>args. Inr (scan_volumes args)),
      ensure_file_directory_exists = (\<lambda>path exist. Inr exist),
      subprocess_run = (\<lambda>args exist. Inr (exist - {last args})),
      s3_upload_file = (\<lambda>access secret file bucket key exist. outcome),
      os_remove_error = (\<lambda>path exist. None)\<rparr>"

definition empty_world :: "string set \<Rightarrow> bool \<Rightarrow> world" where
  "empty_world exist is_a_tty =
     \<lparr>fs = exist, tty = is_a_tty, calls = [], echoed = [], tars = Map.empty, uploads = []\<rparr>"

text \<open>
  A configuration, a root and the development runner built from them, for evaluating
  the commands.
\<close>

definition sample_config :: config where
  "sample_config =
     map_of [(''DEV_PROJECT_NAME'', VStr ''tutor_dev''),
             (''RUN_LMS'', VBool True),
             (''RUN_CMS'', VBool False),
             (''LMS_HOST'', VStr ''lms.example.com''),
             (''MYSQL_ROOT_PASSWORD'', VStr ''pw'')]"

definition sample_runner :: runner where
  "sample_runner =
     \<lparr>root = ''/r'', config = sample_config, project_name = ''tutor_dev'',
      docker_compose_files =
        [''/r/local/docker-compose.yml'', ''/r/dev/docker-compose.yml'',
         ''/r/local/docker-compose.override.yml'', ''/r/dev/docker-compose.override.yml''],
      docker_compose_job_files =
        [''/r/local/docker-compose.jobs.yml'', ''/r/dev/docker-compose.jobs.yml'',
         ''/r/local/docker-compose.jobs.override.yml'',
         ''/r/dev/docker-compose.jobs.override.yml'']\<rparr>"

text \<open>
  A delegate that changes nothing and returns the given status. \<open>utils.docker_compose\<close>
  returns a status only when it is zero or negative (the process was ended by a
  signal); for a positive status it raises, as \<open>fails_on\<close> below does.
\<close>

definition exits_with :: "int \<Rightarrow> string list \<Rightarrow> string set \<Rightarrow> (error + int) \<times> string set" where
  "exits_with rc args exist = (Inr rc, exist)"

text \<open>
  The world of a backup at the time \<open>20240101_000000\<close>: the two dumps, the three data
  directories and the configuration file exist.
\<close>

definition backup_world :: world where
  "backup_world =
     empty_world {''/r/data/mongodb/dump_20240101_000000.mongodb'',
                  ''/r/data/mysql/dump_20240101_000000.sql'',
                  ''/r/data/cms'', ''/r/data/lms'', ''/r/data/openedx-media'',
                  ''/r/config.yml''} True"

text \<open>
  An external tool that raises as soon as its arguments name the given service, and
  exits with 0 otherwise; a configuration with the upload to S3 switched on; a world
  where only the archive exists.
\<close>

definition fails_on :: "string \<Rightarrow> string list \<Rightarrow> string set \<Rightarrow> (error + int) \<times> string set" where
  "fails_on service args exist =
     (if service \<in> set args then (Inl (TutorError ''Command failed with status 1''), exist)
      else (Inr 0, exist))"

definition upload_config :: config where
  "upload_config =
     map_of [(''LMS_HOST'', VStr ''lms.example.com''),
             (''BACKUP_ENABLED'', VBool True),
             (''BACKUP_S3_ACCESS_KEY'', VStr ''AK''),
             (''BACKUP_S3_SECRET_KEY'', VStr ''SK''),
             (''BACKUP_S3_BUCKET_NAME'', VStr ''bucket'')]"

definition archive_world :: world where
  "archive_world = empty_world {''/r/data/backup/a.tar.gz''} True"

section \<open>Properties of the two loops over a file set\<close>

lemma compose_file_args_acc:
  "compose_file_args exist args files = args @ existing_file_args exist files"
  by (induction files arbitrary: args) (simp_all add: existing_file_args_def dash_f_def)

lemma job_file_args_acc:
  "job_file_args e rt exist run_command files =
     run_command @ existing_file_args exist (map (\<lambda>p. pathjoin e rt [p]) files)"
  by (induction files arbitrary: run_command) (simp_all add: existing_file_args_def dash_f_def)

lemma docker_compose_vector:
  "docker_compose e self command w =
     utils_docker_compose e
       (existing_file_args (fs w) (docker_compose_files self) @
        [''--project-name'', project_name self] @ command) w"
  by (simp add: docker_compose_def compose_file_args_acc)

lemma run_job_vector:
  "run_job e self service command w =
     docker_compose e self
       (job_command
          (filter (\<lambda>p. p \<in> fs w)
             (map (\<lambda>p. pathjoin e (root self) [p]) (docker_compose_job_files self)))
          (tty w) service command) w"
  by (simp add: run_job_def job_file_args_acc job_command_def existing_file_args_def Let_def)

lemma utils_docker_compose_result:
  "fst (utils_docker_compose e v w) = fst (tool e v (fs w))"
  "calls (snd (utils_docker_compose e v w)) = calls w @ [v]"
  "fs (snd (utils_docker_compose e v w)) = snd (tool e v (fs w))"
  "echoed (snd (utils_docker_compose e v w)) = echoed w"
  by (simp_all add: utils_docker_compose_def split: prod.splits)

section \<open>The argument vector of docker_compose\<close>

text \<open>
  Claim C1. For every runner and every sequence of command tokens, \<open>docker_compose\<close>
  hands to the external tool the vector made of \<open>-f <path>\<close> for each path of
  \<open>docker_compose_files\<close> that exists, in list order, then \<open>--project-name\<close> and the
  runner's project name, then the caller's tokens; what it returns is what the
  external invocation returns.
\<close>

theorem docker_compose_argument_vector:
  "let v = existing_file_args (fs w) (docker_compose_files self) @
             [''--project-name'', project_name self] @ command
   in docker_compose e self command w = utils_docker_compose e v w \<and>
      calls (snd (docker_compose e self command w)) = calls w @ [v] \<and>
      fst (docker_compose e self command w) = fst (tool e v (fs w))"
  by (simp add: docker_compose_vector utils_docker_compose_result Let_def)

theorem docker_compose_argument_vector_witness:
  "calls (snd (docker_compose (sample_env sample_config (exits_with (- 15)) None) sample_runner
                 [''up'', ''-d'']
                 (empty_world {''/r/local/docker-compose.yml'',
                               ''/r/dev/docker-compose.override.yml''} True))) =
     [[''-f'', ''/r/local/docker-compose.yml'', ''-f'', ''/r/dev/docker-compose.override.yml'',
       ''--project-name'', ''tutor_dev'', ''up'', ''-d'']] \<and>
   fst (docker_compose (sample_env sample_config (exits_with (- 15)) None) sample_runner
                 [''up'', ''-d'']
                 (empty_world {''/r/local/docker-compose.yml'',
                               ''/r/dev/docker-compose.override.yml''} True)) = Inr (- 15)"
proof -
  note v = docker_compose_argument_vector
             [of "empty_world {''/r/local/docker-compose.yml'',
                               ''/r/dev/docker-compose.override.yml''} True"
                 sample_runner "[''up'', ''-d'']"
                 "sample_env sample_config (exits_with (- 15)) None",
              unfolded Let_def]
  show ?thesis
    unfolding v [THEN conjunct2, THEN conjunct1] v [THEN conjunct2, THEN conjunct2]
    by (simp add: existing_file_args_def dash_f_def sample_runner_def empty_world_def
        sample_env_def exits_with_def)
qed

section \<open>Existence is tested at each call\<close>

text \<open>
  Claim C2. For every runner and every call of \<open>docker_compose\<close> or \<open>run_job\<close>, the
  \<open>-f\<close> arguments name only paths that exist in the filesystem of the call: the
  runner holds the declared lists, the test is made on the world the call is made in,
  and a declared path that does not exist is left out without any error, the result
  being the one of the external tool.
\<close>

theorem file_set_paths_exist_at_call:
  "let ps = filter (\<lambda>p. p \<in> fs w) (docker_compose_files self);
       qs = filter (\<lambda>p. p \<in> fs w)
              (map (\<lambda>p. pathjoin e (root self) [p]) (docker_compose_job_files self));
       v1 = dash_f ps @ [''--project-name'', project_name self] @ command;
       v2 = dash_f ps @ [''--project-name'', project_name self] @
              job_command qs (tty w) service shell_command
   in set ps \<subseteq> fs w \<and> set qs \<subseteq> fs w \<and>
      calls (snd (docker_compose e self command w)) = calls w @ [v1] \<and>
      fst (docker_compose e self command w) = fst (tool e v1 (fs w)) \<and>
      calls (snd (run_job e self service shell_command w)) = calls w @ [v2] \<and>
      fst (run_job e self service shell_command w) = fst (tool e v2 (fs w))"
  unfolding Let_def run_job_vector docker_compose_vector utils_docker_compose_result
    existing_file_args_def
  by auto

theorem file_set_paths_exist_at_call_witness:
  "calls (snd (docker_compose (sample_env sample_config (exits_with 0) None) sample_runner
                 [''stop''] (empty_world {} True))) =
     [[''--project-name'', ''tutor_dev'', ''stop'']] \<and>
   fst (docker_compose (sample_env sample_config (exits_with 0) None) sample_runner
                 [''stop''] (empty_world {} True)) = Inr 0 \<and>
   calls (snd (docker_compose (sample_env sample_config (exits_with 0) None) sample_runner
                 [''stop''] (empty_world {''/r/dev/docker-compose.yml''} True))) =
     [[''-f'', ''/r/dev/docker-compose.yml'', ''--project-name'', ''tutor_dev'', ''stop'']] \<and>
   calls (snd (run_job (sample_env sample_config (exits_with 0) None) sample_runner
                 ''lms'' ''true''
                 (empty_world {''/r/dev/docker-compose.yml'',
                               ''/r/local/docker-compose.jobs.yml''} False))) =
     [[''-f'', ''/r/dev/docker-compose.yml'', ''--project-name'', ''tutor_dev'',
       ''-f'', ''/r/local/docker-compose.jobs.yml'', ''run'', ''--rm'', ''-T'', ''lms-job'',
       ''sh'', ''-e'', ''-c'', ''true'']]"
proof -
  note a = file_set_paths_exist_at_call [of "empty_world {} True" sample_runner
                 "sample_env sample_config (exits_with 0) None" "[''stop'']", unfolded Let_def]
  note b = file_set_paths_exist_at_call [of "empty_world {''/r/dev/docker-compose.yml''} True" sample_runner
                 "sample_env sample_config (exits_with 0) None" "[''stop'']", unfolded Let_def]
  note c = file_set_paths_exist_at_call [of "empty_world {''/r/dev/docker-compose.yml'',
                               ''/r/local/docker-compose.jobs.yml''} False" sample_runner
                 "sample_env sample_config (exits_with 0) None" _ "''lms''" "''true''",
               unfolded Let_def]
  show ?thesis
    unfolding a [THEN conjunct2, THEN conjunct2, THEN conjunct1]
      a [THEN conjunct2, THEN conjunct2, THEN conjunct2, THEN conjunct1]
      b [THEN conjunct2, THEN conjunct2, THEN conjunct1]
      c [THEN conjunct2, THEN conjunct2, THEN conjunct2, THEN conjunct2, THEN conjunct1]
    by (simp add: dash_f_def job_command_def sample_runner_def empty_world_def
        sample_env_def exits_with_def)
qed

lemma sample_dev_runner:
  "DevJobRunner (sample_env sample_config t u) ''/r'' sample_config = Inr sample_runner"
  by (simp add: DevJobRunner_def ComposeJobRunner_def sample_env_def sample_config_def
      sample_runner_def)

section \<open>The file sets of the development profile\<close>

text \<open>
  Claim C3 says that both file sets of \<open>DevJobRunner\<close> are in the order local file,
  local override, dev file, dev override. The constructor writes another order: at
  the sample root the lists differ from the layered order.
\<close>

theorem dev_file_sets_not_layered_counterexample:
  "DevJobRunner (sample_env sample_config (exits_with 0) None) ''/r'' sample_config =
     Inr sample_runner \<and>
   docker_compose_files sample_runner \<noteq>
     layered_precedence (sample_env sample_config (exits_with 0) None) ''/r'' ''dev''
       ''docker-compose'' \<and>
   docker_compose_job_files sample_runner \<noteq>
     layered_precedence (sample_env sample_config (exits_with 0) None) ''/r'' ''dev''
       ''docker-compose.jobs''"
proof -
  have "DevJobRunner (sample_env sample_config (exits_with 0) None) ''/r'' sample_config =
          Inr sample_runner"
    by (rule sample_dev_runner)
  moreover have "docker_compose_files sample_runner \<noteq>
     layered_precedence (sample_env sample_config (exits_with 0) None) ''/r'' ''dev''
       ''docker-compose''"
    by (simp add: layered_precedence_def sample_env_def sample_runner_def)
  moreover have "docker_compose_job_files sample_runner \<noteq>
     layered_precedence (sample_env sample_config (exits_with 0) None) ''/r'' ''dev''
       ''docker-compose.jobs''"
    by (simp add: layered_precedence_def sample_env_def sample_runner_def)
  ultimately show ?thesis by blast
qed

text \<open>
  Claim C3, amended. Both file sets of \<open>DevJobRunner\<close> are in the order: the local
  file, the dev file, the local override, the dev override.
\<close>

theorem dev_file_sets_order:
  "DevJobRunner e rt cfg = Inr r \<Longrightarrow>
     docker_compose_files r =
       [pathjoin e rt [''local'', ''docker-compose.yml''],
        pathjoin e rt [''dev'', ''docker-compose.yml''],
        pathjoin e rt [''local'', ''docker-compose.override.yml''],
        pathjoin e rt [''dev'', ''docker-compose.override.yml'']] \<and>
     docker_compose_job_files r =
       [pathjoin e rt [''local'', ''docker-compose.jobs.yml''],
        pathjoin e rt [''dev'', ''docker-compose.jobs.yml''],
        pathjoin e rt [''local'', ''docker-compose.jobs.override.yml''],
        pathjoin e rt [''dev'', ''docker-compose.jobs.override.yml'']]"
  by (auto simp: DevJobRunner_def ComposeJobRunner_def Let_def split: sum.splits)

theorem dev_file_sets_order_witness:
  "docker_compose_files sample_runner =
     [''/r/local/docker-compose.yml'', ''/r/dev/docker-compose.yml'',
      ''/r/local/docker-compose.override.yml'', ''/r/dev/docker-compose.override.yml''] \<and>
   docker_compose_job_files sample_runner =
     [''/r/local/docker-compose.jobs.yml'', ''/r/dev/docker-compose.jobs.yml'',
      ''/r/local/docker-compose.jobs.override.yml'',
      ''/r/dev/docker-compose.jobs.override.yml'']"
  using dev_file_sets_order [OF sample_dev_runner [of "exits_with 0" None]]
  by (simp add: sample_env_def)

section \<open>The invocation of a job\<close>

text \<open>
  Claim C4 says that the vector \<open>[-f <path>]* run --rm [-T] <service>-job sh -e -c
  <command>\<close> is the invocation delivered to the external tool. \<open>run_job\<close> hands it
  to \<open>docker_compose\<close>, which puts the service files and the project name in front:
  with one job file present, a terminal attached and no service file present, the
  delivered vector is not the one the claim gives.
\<close>

theorem run_job_delivers_more_counterexample:
  "calls (snd (run_job (sample_env sample_config (exits_with 0) None) sample_runner
                 ''lms'' ''true'' (empty_world {''/r/local/docker-compose.jobs.yml''} True))) =
     [[''--project-name'', ''tutor_dev'', ''-f'', ''/r/local/docker-compose.jobs.yml'',
       ''run'', ''--rm'', ''lms-job'', ''sh'', ''-e'', ''-c'', ''true'']] \<and>
   job_command [''/r/local/docker-compose.jobs.yml''] True ''lms'' ''true'' =
     [''-f'', ''/r/local/docker-compose.jobs.yml'',
      ''run'', ''--rm'', ''lms-job'', ''sh'', ''-e'', ''-c'', ''true''] \<and>
   calls (snd (run_job (sample_env sample_config (exits_with 0) None) sample_runner
                 ''lms'' ''true'' (empty_world {''/r/local/docker-compose.jobs.yml''} True))) \<noteq>
     [job_command [''/r/local/docker-compose.jobs.yml''] True ''lms'' ''true'']"
  by (simp add: run_job_vector docker_compose_vector utils_docker_compose_result
      existing_file_args_def dash_f_def job_command_def sample_runner_def empty_world_def
      sample_env_def)

text \<open>
  Claim C4, amended. For every service name and shell command, \<open>run_job\<close> builds
  \<open>-f <path>\<close> for every job file whose path joined to the root exists, then \<open>run\<close>,
  \<open>--rm\<close>, then \<open>-T\<close> exactly when no terminal is attached, then \<open><service>-job\<close>,
  \<open>sh\<close>, \<open>-e\<close>, \<open>-c\<close> and the shell command, and hands these tokens to
  \<open>docker_compose\<close>: the external tool receives the \<open>-f\<close> arguments of the existing
  service files and \<open>--project-name <project_name>\<close>, followed by these tokens.
\<close>

theorem run_job_invocation:
  "let job_paths = filter (\<lambda>p. p \<in> fs w)
                     (map (\<lambda>p. pathjoin e (root self) [p]) (docker_compose_job_files self));
       tokens = dash_f job_paths @ [''run'', ''--rm''] @ (if tty w then [] else [''-T'']) @
                [service @ ''-job'', ''sh'', ''-e'', ''-c'', command];
       v = existing_file_args (fs w) (docker_compose_files self) @
             [''--project-name'', project_name self] @ tokens
   in run_job e self service command w = docker_compose e self tokens w \<and>
      calls (snd (run_job e self service command w)) = calls w @ [v] \<and>
      fst (run_job e self service command w) = fst (tool e v (fs w))"
  by (simp add: run_job_vector docker_compose_vector utils_docker_compose_result Let_def
      job_command_def)

theorem run_job_invocation_witness:
  "calls (snd (run_job (sample_env sample_config (exits_with 0) None) sample_runner
                 ''lms'' ''true''
                 (empty_world {''/r/dev/docker-compose.yml'',
                               ''/r/local/docker-compose.jobs.yml''} False))) =
     [[''-f'', ''/r/dev/docker-compose.yml'', ''--project-name'', ''tutor_dev'',
       ''-f'', ''/r/local/docker-compose.jobs.yml'', ''run'', ''--rm'', ''-T'', ''lms-job'',
       ''sh'', ''-e'', ''-c'', ''true'']] \<and>
   calls (snd (run_job (sample_env sample_config (exits_with 0) None) sample_runner
                 ''lms'' ''true''
                 (empty_world {''/r/dev/docker-compose.yml'',
                               ''/r/local/docker-compose.jobs.yml''} True))) =
     [[''-f'', ''/r/dev/docker-compose.yml'', ''--project-name'', ''tutor_dev'',
       ''-f'', ''/r/local/docker-compose.jobs.yml'', ''run'', ''--rm'', ''lms-job'',
       ''sh'', ''-e'', ''-c'', ''true'']]"
proof -
  note a = run_job_invocation [of "empty_world {''/r/dev/docker-compose.yml'',
                               ''/r/local/docker-compose.jobs.yml''} False"
                 "sample_env sample_config (exits_with 0) None" sample_runner
                 "''lms''" "''true''", unfolded Let_def]
  note b = run_job_invocation [of "empty_world {''/r/dev/docker-compose.yml'',
                               ''/r/local/docker-compose.jobs.yml''} True"
                 "sample_env sample_config (exits_with 0) None" sample_runner
                 "''lms''" "''true''", unfolded Let_def]
  show ?thesis
    unfolding a [THEN conjunct2, THEN conjunct1] b [THEN conjunct2, THEN conjunct1]
    by (simp add: existing_file_args_def dash_f_def sample_runner_def empty_world_def
        sample_env_def)
qed

section \<open>Sequencing of pure steps\<close>

lemma then_do_lift_Inr [simp]: "then_do (lift (Inr x)) f = f x"
  by (rule ext) (simp add: then_do_def lift_def)

lemma then_do_lift_Inl [simp]: "then_do (lift (Inl err)) f w = (Inl err, w)"
  by (simp add: then_do_def lift_def)

lemma sample_load:
  "load (sample_env cfg t u) rt = Inr cfg"
  by (simp add: sample_env_def)

lemma sample_dev_context:
  "ctx_root (DevContext e rt) = rt"
  "job_runner (DevContext (sample_env sample_config t u) ''/r'') sample_config =
     Inr sample_runner"
  by (simp_all add: DevContext_def sample_dev_runner)

lemma discard_result:
  "discard m w = (case m w of (Inl err, w') \<Rightarrow> (Inl err, w') | (Inr x, w') \<Rightarrow> (Inr (), w'))"
  by (simp add: discard_def then_do_def)

lemma discard_snd: "snd (discard m w) = snd (m w)"
  by (simp add: discard_result split: prod.splits sum.splits)

section \<open>The restart command\<close>

text \<open>
  Claim C9. For \<open>restart\<close> with the services \<open>["openedx"]\<close> under a configuration
  with \<open>RUN_LMS\<close> true and \<open>RUN_CMS\<close> false, the tokens handed to \<open>docker_compose\<close>
  are exactly \<open>restart lms lms-worker\<close>.
\<close>

theorem restart_openedx_lms_only:
  assumes "load e (ctx_root ctx) = Inr cfg"
    and "cfg ''RUN_LMS'' = Some (VBool True)"
    and "cfg ''RUN_CMS'' = Some (VBool False)"
    and "job_runner ctx cfg = Inr r"
  shows "restart_command cfg [''openedx''] = Inr [''restart'', ''lms'', ''lms-worker''] \<and>
         restart e ctx [''openedx''] w =
           discard (docker_compose e r [''restart'', ''lms'', ''lms-worker'']) w"
proof -
  have c: "restart_command cfg [''openedx''] = Inr [''restart'', ''lms'', ''lms-worker'']"
    using assms(2,3) by (simp add: restart_command_def getitem_def)
  show ?thesis
    using assms(1,4) by (simp add: c restart_def)
qed

theorem restart_openedx_lms_only_witness:
  "restart_command sample_config [''openedx''] = Inr [''restart'', ''lms'', ''lms-worker''] \<and>
   calls (snd (restart (sample_env sample_config (exits_with 0) None)
                 (DevContext (sample_env sample_config (exits_with 0) None) ''/r'')
                 [''openedx''] (empty_world {} True))) =
     [[''--project-name'', ''tutor_dev'', ''restart'', ''lms'', ''lms-worker'']]"
proof -
  have l: "sample_config ''RUN_LMS'' = Some (VBool True)"
    and c: "sample_config ''RUN_CMS'' = Some (VBool False)"
    by (simp_all add: sample_config_def)
  have ld: "load (sample_env sample_config (exits_with 0) None)
              (ctx_root (DevContext (sample_env sample_config (exits_with 0) None) ''/r'')) =
            Inr sample_config"
    by (simp add: sample_load)
  have jr: "job_runner (DevContext (sample_env sample_config (exits_with 0) None) ''/r'')
              sample_config = Inr sample_runner"
    by (rule sample_dev_context(2))
  note t = restart_openedx_lms_only [OF ld l c jr, where w = "empty_world {} True"]
  show ?thesis
    unfolding t [THEN conjunct1] t [THEN conjunct2] discard_snd docker_compose_vector
      utils_docker_compose_result
    by (simp add: existing_file_args_def dash_f_def sample_runner_def empty_world_def)
qed

text \<open>
  Claim C10. For \<open>restart\<close>, when \<open>all\<close> is anywhere among the services, every other
  listed service is ignored and the bare \<open>restart\<close> is handed to \<open>docker_compose\<close>.
\<close>

theorem restart_all_is_bare:
  assumes "''all'' \<in> set services"
    and "load e (ctx_root ctx) = Inr cfg"
    and "job_runner ctx cfg = Inr r"
  shows "restart_command cfg services = Inr [''restart''] \<and>
         restart e ctx services w = discard (docker_compose e r [''restart'']) w"
proof -
  have c: "restart_command cfg services = Inr [''restart'']"
    using assms(1) by (simp add: restart_command_def)
  show ?thesis
    using assms(2,3) by (simp add: c restart_def)
qed

theorem restart_all_is_bare_witness:
  "restart_command sample_config [''forum'', ''all'', ''openedx''] = Inr [''restart''] \<and>
   calls (snd (restart (sample_env sample_config (exits_with 0) None)
                 (DevContext (sample_env sample_config (exits_with 0) None) ''/r'')
                 [''forum'', ''all'', ''openedx''] (empty_world {} True))) =
     [[''--project-name'', ''tutor_dev'', ''restart'']]"
proof -
  have a: "''all'' \<in> set [''forum'', ''all'', ''openedx'']"
    by simp
  have ld: "load (sample_env sample_config (exits_with 0) None)
              (ctx_root (DevContext (sample_env sample_config (exits_with 0) None) ''/r'')) =
            Inr sample_config"
    by (simp add: sample_load)
  have jr: "job_runner (DevContext (sample_env sample_config (exits_with 0) None) ''/r'')
              sample_config = Inr sample_runner"
    by (rule sample_dev_context(2))
  note t = restart_all_is_bare [OF a ld jr, where w = "empty_world {} True"]
  show ?thesis
    unfolding t [THEN conjunct1] t [THEN conjunct2] discard_snd docker_compose_vector
      utils_docker_compose_result
    by (simp add: existing_file_args_def dash_f_def sample_runner_def empty_world_def)
qed

section \<open>The dc command and bind-mounts\<close>

lemma dc_volume_args_missing:
  "v \<in> set volumes \<Longrightarrow> CHR '':'' \<notin> set v \<Longrightarrow> get_path e rt v \<notin> exist \<Longrightarrow>
   \<exists>v' \<in> set volumes. CHR '':'' \<notin> set v' \<and> get_path e rt v' \<notin> exist \<and>
     dc_volume_args e rt exist volume_args volumes = Inl (missing_bind_mount (get_path e rt v'))"
proof (induction volumes arbitrary: volume_args)
  case Nil
  then show ?case by simp
next
  case (Cons a volumes)
  show ?case
  proof (cases "CHR '':'' \<notin> set a \<and> get_path e rt a \<notin> exist")
    case True
    then show ?thesis by (auto simp: Let_def)
  next
    case False
    with Cons.prems have "v \<in> set volumes" by auto
    from Cons.IH [OF this Cons.prems(2,3)] False show ?thesis
      by (auto simp: Let_def)
  qed
qed

text \<open>
  Claim C5. When the volumes parsed from the arguments of \<open>dc\<close> hold a bare token (no
  colon) whose host directory does not exist, the command fails with the
  missing-bind-mount error, which names the \<open>bindmount\<close> command, for such a token;
  the world is left as it was: the external tool is not invoked and nothing is printed
  or written.
\<close>

theorem dc_command_missing_bind_mount:
  assumes "load e (ctx_root ctx) = Inr cfg"
    and "parse_volumes e args = Inr (volumes, non_volume_args)"
    and "v \<in> set volumes"
    and "CHR '':'' \<notin> set v"
    and "get_path e (ctx_root ctx) v \<notin> fs w"
  shows "\<exists>v' \<in> set volumes. CHR '':'' \<notin> set v' \<and> get_path e (ctx_root ctx) v' \<notin> fs w \<and>
           dc_command e ctx command args w =
             (Inl (missing_bind_mount (get_path e (ctx_root ctx) v')), w)"
proof -
  from dc_volume_args_missing [OF assms(3,4,5), of "[]"]
  obtain v' where v': "v' \<in> set volumes" "CHR '':'' \<notin> set v'"
      "get_path e (ctx_root ctx) v' \<notin> fs w"
      "dc_volume_args e (ctx_root ctx) (fs w) [] volumes =
         Inl (missing_bind_mount (get_path e (ctx_root ctx) v'))"
    by blast
  have "dc_command e ctx command args w =
          (Inl (missing_bind_mount (get_path e (ctx_root ctx) v')), w)"
    using assms(1,2) v'(4) by (simp add: dc_command_def then_do_def)
  with v'(1,2,3) show ?thesis by blast
qed

theorem dc_command_missing_bind_mount_witness:
  "dc_command (sample_env sample_config (exits_with 0) None)
     (DevContext (sample_env sample_config (exits_with 0) None) ''/r'')
     ''run'' [''--volume'', ''/a:/b'', ''-v'', ''data'', ''lms'', ''bash'']
     (empty_world {''/r/local/docker-compose.yml''} True) =
   (Inl (TutorError (''Bind-mount volume directory /r/volumes/data does not exist. '' @
           ''It must first be created with the '' @ [CHR 0x27] @ ''bindmount'' @ [CHR 0x27] @
           '' command.'')),
    empty_world {''/r/local/docker-compose.yml''} True)"
proof -
  have ld: "load (sample_env sample_config (exits_with 0) None)
              (ctx_root (DevContext (sample_env sample_config (exits_with 0) None) ''/r'')) =
            Inr sample_config"
    by (simp add: sample_load)
  have pv: "parse_volumes (sample_env sample_config (exits_with 0) None)
              [''--volume'', ''/a:/b'', ''-v'', ''data'', ''lms'', ''bash''] =
            Inr ([''/a:/b'', ''data''], [''lms'', ''bash''])"
    by (simp add: sample_env_def)
  have m: "''data'' \<in> set [''/a:/b'', ''data'']"
    and b: "CHR '':'' \<notin> set ''data''"
    by simp_all
  have g: "get_path (sample_env sample_config (exits_with 0) None)
             (ctx_root (DevContext (sample_env sample_config (exits_with 0) None) ''/r''))
             ''data'' \<notin> fs (empty_world {''/r/local/docker-compose.yml''} True)"
    by (simp add: sample_dev_context sample_env_def empty_world_def)
  from dc_command_missing_bind_mount [OF ld pv m b g, of "''run''"] show ?thesis
    by (auto simp: sample_dev_context missing_bind_mount_def sample_env_def)
qed

section \<open>The stages of the backup\<close>

lemma then_do_Inl: "m w = (Inl err, w') \<Longrightarrow> then_do m f w = (Inl err, w')"
  by (simp add: then_do_def)

lemma then_do_Inr: "m w = (Inr x, w') \<Longrightarrow> then_do m f w = f x w'"
  by (simp add: then_do_def)

lemma then_do_echo: "then_do (echo_info msg) f w = f () (w\<lparr>echoed := echoed w @ [msg]\<rparr>)"
  by (simp add: then_do_def echo_info_def)

lemma docker_compose_tool:
  "tool e (existing_file_args (fs w) (docker_compose_files r) @
           [''--project-name'', project_name r] @ command) (fs w) = (res, fs') \<Longrightarrow>
   docker_compose e r command w =
     (res, w\<lparr>fs := fs',
             calls := calls w @ [existing_file_args (fs w) (docker_compose_files r) @
                                 [''--project-name'', project_name r] @ command]\<rparr>)"
  by (simp add: docker_compose_vector utils_docker_compose_def)

lemma sample_env_sel:
  "pathjoin (sample_env c t u) = os_path_join"
  "load (sample_env c t u) rt = Inr c"
  "tool (sample_env c t u) = t"
  "data_path (sample_env c t u) rt path = os_path_join rt (''data'' # path)"
  "root_dir (sample_env c t u) rt = rt"
  "get_path (sample_env c t u) rt name = os_path_join rt [''volumes'', name]"
  "parse_volumes (sample_env c t u) args = Inr (scan_volumes args)"
  "ensure_file_directory_exists (sample_env c t u) file exist = Inr exist"
  "subprocess_run (sample_env c t u) args exist = Inr (exist - {last args})"
  "s3_upload_file (sample_env c t u) access secret file bucket key exist = u"
  "os_remove_error (sample_env c t u) file exist = None"
  by (simp_all add: sample_env_def)

lemma sample_config_sel:
  "sample_config ''DEV_PROJECT_NAME'' = Some (VStr ''tutor_dev'')"
  "sample_config ''RUN_LMS'' = Some (VBool True)"
  "sample_config ''RUN_CMS'' = Some (VBool False)"
  "sample_config ''LMS_HOST'' = Some (VStr ''lms.example.com'')"
  "sample_config ''MYSQL_ROOT_PASSWORD'' = Some (VStr ''pw'')"
  "sample_config ''BACKUP_ENABLED'' = None"
  by (simp_all add: sample_config_def)

lemma tar_add_all_ok:
  "tars w tar = Some ms \<Longrightarrow> set srcs \<subseteq> fs w \<Longrightarrow>
   tar_add_all tar srcs w =
     (Inr (), w\<lparr>tars := (tars w)(tar \<mapsto> ms @ map (\<lambda>p. (basename p, p)) srcs)\<rparr>)"
proof (induction srcs arbitrary: w ms)
  case Nil
  then show ?case
    by (simp add: fun_upd_idem)
next
  case (Cons a srcs)
  let ?w1 = "w\<lparr>tars := (tars w)(tar \<mapsto> ms @ [(basename a, a)])\<rparr>"
  have t: "tars ?w1 tar = Some (ms @ [(basename a, a)])" by simp
  from Cons.prems have "set srcs \<subseteq> fs ?w1" by simp
  have "tar_add_all tar (a # srcs) w = tar_add_all tar srcs ?w1"
    using Cons.prems by (simp add: tar_add_def)
  also have "\<dots> = (Inr (), ?w1\<lparr>tars := (tars ?w1)(tar \<mapsto>
             (ms @ [(basename a, a)]) @ map (\<lambda>p. (basename p, p)) srcs)\<rparr>)"
    by (rule Cons.IH [OF t \<open>set srcs \<subseteq> fs ?w1\<close>])
  also have "\<dots> =
        (Inr (), w\<lparr>tars := (tars w)(tar \<mapsto> ms @ map (\<lambda>p. (basename p, p)) (a # srcs))\<rparr>)"
    by simp
  finally show ?case .
qed

lemma basename_no_slash: "CHR ''/'' \<notin> set (basename p)"
  using set_takeWhileD [of "CHR ''/''" "\<lambda>c. c \<noteq> CHR ''/''" "rev p"]
  by (auto simp: basename_def)

lemma then_do_tars:
  assumes "\<And>w. tars (snd (m w)) = tars w"
    and "\<And>x w. tars (snd (f x w)) = tars w"
  shows "tars (snd (then_do m f w)) = tars w"
proof (cases "m w")
  case (Pair r w1)
  with assms(1) [of w] have t: "tars w1 = tars w" by simp
  show ?thesis
  proof (cases r)
    case (Inl err)
    with Pair t show ?thesis by (simp add: then_do_def)
  next
    case (Inr x)
    with Pair t assms(2) [of x w1] show ?thesis by (simp add: then_do_def)
  qed
qed

lemma echo_info_tars: "tars (snd (echo_info msg w)) = tars w"
  by (simp add: echo_info_def)

lemma remove_if_exists_tars: "tars (snd (remove_if_exists e path w)) = tars w"
  by (simp add: remove_if_exists_def os_remove_def split: option.splits)

lemma cleanup_handler_tars:
  "tars (snd (case r of
                (Inl err, w') \<Rightarrow> (if is_OSError err then echo_info (g err) w' else (Inl err, w'))
              | (Inr u, w') \<Rightarrow> (Inr (), w'))) = tars (snd r)"
  by (simp add: echo_info_def split: prod.splits sum.splits)

lemma cleanup_try_tars:
  "tars (snd (then_do
             (\<lambda>w0. case subprocess_run e args (fs w0) of
                      Inl err \<Rightarrow> (Inl err, w0)
                    | Inr fs' \<Rightarrow> (Inr (), w0\<lparr>fs := fs'\<rparr>))
             (\<lambda>u. remove_if_exists e b) w)) = tars w"
  by (intro then_do_tars remove_if_exists_tars) (simp split: sum.splits)

lemma backup_cleanup_tars: "tars (snd (backup_cleanup e a b w)) = tars w"
  unfolding backup_cleanup_def
  by (simp only: cleanup_handler_tars [where g = "\<lambda>err. ''Delete mongodb or mysql dump files '' @
        strerror err @ '' are failed''"] cleanup_try_tars)

lemma backup_cleanup_remove_fails:
  assumes "subprocess_run e [''sudo'', ''rm'', ''-rf'', a] (fs w) = Inr fs'"
    and "b \<in> fs'"
    and "os_remove_error e b fs' = Some (OSError reason)"
  shows "backup_cleanup e a b w =
           (Inr (), w\<lparr>fs := fs',
                        echoed := echoed w @
                          [''Delete mongodb or mysql dump files '' @ reason @ '' are failed'']\<rparr>)"
  using assms
  by (simp add: backup_cleanup_def then_do_def remove_if_exists_def os_remove_def echo_info_def)

lemma upload_handler_tars:
  "tars (snd (case r of
                (Inl err, w') \<Rightarrow>
                  (case err of
                     FileNotFoundError x \<Rightarrow> echo_info a w'
                   | NoCredentialsError \<Rightarrow> echo_info b w'
                   | _ \<Rightarrow> (Inl err, w'))
              | (Inr u, w') \<Rightarrow> (Inr (), w'))) = tars (snd r)"
  by (simp add: echo_info_def split: prod.splits sum.splits error.splits)

lemma upload_try_tars:
  "tars (snd (then_do
         (\<lambda>w1. case s3_upload_file e ak sk bp bn fn (fs w1) of
                  None \<Rightarrow> (Inr (), w1\<lparr>uploads := uploads w1 @ [(bp, bn, fn)]\<rparr>)
                | Some err \<Rightarrow> (Inl err, w1\<lparr>uploads := uploads w1 @ [(bp, bn, fn)]\<rparr>))
         (\<lambda>u. then_do (echo_info msg) (\<lambda>u. remove_if_exists e bp)) w)) = tars w"
  by (intro then_do_tars echo_info_tars remove_if_exists_tars) (simp split: option.splits)

lemma backup_upload_tars: "tars (snd (backup_upload e cfg bp fn w)) = tars w"
  by (simp add: backup_upload_def getitem_def upload_handler_tars upload_try_tars
      split: option.splits)

lemma backup_exports_ok:
  assumes "load e (ctx_root ctx) = Inr cfg"
    and "job_runner ctx cfg = Inr r"
    and "tool e (compose_vector (fs w) r (mongodb_command now)) (fs w) = (Inr rc1, fs1)"
    and "cfg ''MYSQL_ROOT_PASSWORD'' = Some pwd"
    and "tool e (compose_vector fs1 r (mysql_command pwd now)) fs1 = (Inr rc2, fs2)"
    and "cfg ''LMS_HOST'' = Some host"
    and "ensure_file_directory_exists e
           (data_path e (ctx_root ctx) [''backup'', backup_file_name host now]) fs2 = Inr fs3"
  shows "backup e ctx now w =
     then_do (tar_add_all (data_path e (ctx_root ctx) [''backup'', backup_file_name host now])
                (backup_sources e (ctx_root ctx) now)) (\<lambda>u.
     then_do (echo_info (''Created backup file '' @ backup_file_name host now @
                '' successfully'')) (\<lambda>u.
     then_do (backup_cleanup e (data_path e (ctx_root ctx) [''mongodb/dump_'' @ now @ ''.mongodb''])
                (data_path e (ctx_root ctx) [''mysql/dump_'' @ now @ ''.sql''])) (\<lambda>u.
     backup_upload e cfg (data_path e (ctx_root ctx) [''backup'', backup_file_name host now])
       (backup_file_name host now))))
     (w\<lparr>fs := insert (data_path e (ctx_root ctx) [''backup'', backup_file_name host now]) fs3,
        calls := calls w @ [compose_vector (fs w) r (mongodb_command now),
                            compose_vector fs1 r (mysql_command pwd now)],
        echoed := echoed w @ [''Exported mongo databases successfully'',
                              ''Exported mysql databases successfully''],
        tars := (tars w)(data_path e (ctx_root ctx) [''backup'', backup_file_name host now]
                  \<mapsto> [])\<rparr>)"
proof -
  let ?w1 = "w\<lparr>fs := fs1, calls := calls w @ [compose_vector (fs w) r (mongodb_command now)]\<rparr>"
  let ?w2 = "?w1\<lparr>echoed := echoed ?w1 @ [''Exported mongo databases successfully'']\<rparr>"
  have d1: "docker_compose e r (mongodb_command now) w = (Inr rc1, ?w1)"
    using assms(3) unfolding compose_vector_def by (rule docker_compose_tool)
  have "tool e (compose_vector (fs ?w2) r (mysql_command pwd now)) (fs ?w2) = (Inr rc2, fs2)"
    using assms(5) by simp
  then have d2: "docker_compose e r (mysql_command pwd now) ?w2 =
      (Inr rc2, ?w2\<lparr>fs := fs2,
                    calls := calls ?w2 @ [compose_vector (fs ?w2) r (mysql_command pwd now)]\<rparr>)"
    unfolding compose_vector_def by (rule docker_compose_tool)
  show ?thesis
    using assms(1,2,4,6,7) d1 d2
    apply (simp add: backup_def then_do_Inr then_do_echo getitem_def mongodb_command_def
        mysql_command_def backup_file_name_def backup_sources_def tarfile_open_def Let_def)
    apply (rule arg_cong [where f = "then_do _ _"])
    apply simp
    done
qed

lemma backup_archive_ok:
  assumes "load e (ctx_root ctx) = Inr cfg"
    and "job_runner ctx cfg = Inr r"
    and "tool e (compose_vector (fs w) r (mongodb_command now)) (fs w) = (Inr rc1, fs1)"
    and "cfg ''MYSQL_ROOT_PASSWORD'' = Some pwd"
    and "tool e (compose_vector fs1 r (mysql_command pwd now)) fs1 = (Inr rc2, fs2)"
    and "cfg ''LMS_HOST'' = Some host"
    and "ensure_file_directory_exists e
           (data_path e (ctx_root ctx) [''backup'', backup_file_name host now]) fs2 = Inr fs3"
    and "set (backup_sources e (ctx_root ctx) now) \<subseteq>
           insert (data_path e (ctx_root ctx) [''backup'', backup_file_name host now]) fs3"
  shows "backup e ctx now w =
     then_do (echo_info (''Created backup file '' @ backup_file_name host now @
                '' successfully'')) (\<lambda>u.
     then_do (backup_cleanup e (data_path e (ctx_root ctx) [''mongodb/dump_'' @ now @ ''.mongodb''])
                (data_path e (ctx_root ctx) [''mysql/dump_'' @ now @ ''.sql''])) (\<lambda>u.
     backup_upload e cfg (data_path e (ctx_root ctx) [''backup'', backup_file_name host now])
       (backup_file_name host now)))
     (w\<lparr>fs := insert (data_path e (ctx_root ctx) [''backup'', backup_file_name host now]) fs3,
        calls := calls w @ [compose_vector (fs w) r (mongodb_command now),
                            compose_vector fs1 r (mysql_command pwd now)],
        echoed := echoed w @ [''Exported mongo databases successfully'',
                              ''Exported mysql databases successfully''],
        tars := (tars w)(data_path e (ctx_root ctx) [''backup'', backup_file_name host now]
                  \<mapsto> map (\<lambda>p. (basename p, p)) (backup_sources e (ctx_root ctx) now))\<rparr>)"
proof -
  let ?fn = "backup_file_name host now"
  let ?bp = "data_path e (ctx_root ctx) [''backup'', ?fn]"
  let ?srcs = "backup_sources e (ctx_root ctx) now"
  let ?w3 = "w\<lparr>fs := insert ?bp fs3,
        calls := calls w @ [compose_vector (fs w) r (mongodb_command now),
                            compose_vector fs1 r (mysql_command pwd now)],
        echoed := echoed w @ [''Exported mongo databases successfully'',
                              ''Exported mysql databases successfully''],
        tars := (tars w)(?bp \<mapsto> [])\<rparr>"
  let ?w4 = "?w3\<lparr>tars := (tars ?w3)(?bp \<mapsto> [] @ map (\<lambda>p. (basename p, p)) ?srcs)\<rparr>"
  let ?K = "\<lambda>u::unit. then_do (echo_info (''Created backup file '' @ ?fn @ '' successfully''))
              (\<lambda>u. then_do (backup_cleanup e
                     (data_path e (ctx_root ctx) [''mongodb/dump_'' @ now @ ''.mongodb''])
                     (data_path e (ctx_root ctx) [''mysql/dump_'' @ now @ ''.sql'']))
              (\<lambda>u. backup_upload e cfg ?bp ?fn))"
  have b: "backup e ctx now w = then_do (tar_add_all ?bp ?srcs) ?K ?w3"
    using assms(1-7) by (rule backup_exports_ok)
  have t3: "tars ?w3 ?bp = Some []" by simp
  have s3: "set ?srcs \<subseteq> fs ?w3" using assms(8) by simp
  have a: "tar_add_all ?bp ?srcs ?w3 = (Inr (), ?w4)"
    by (rule tar_add_all_ok [OF t3 s3])
  have "backup e ctx now w = ?K () ?w4"
    unfolding b
    by (rule then_do_Inr [where m = "tar_add_all ?bp ?srcs" and w = ?w3 and f = ?K, OF a])
  moreover have "?w4 = w\<lparr>fs := insert ?bp fs3,
        calls := calls w @ [compose_vector (fs w) r (mongodb_command now),
                            compose_vector fs1 r (mysql_command pwd now)],
        echoed := echoed w @ [''Exported mongo databases successfully'',
                              ''Exported mysql databases successfully''],
        tars := (tars w)(?bp \<mapsto> map (\<lambda>p. (basename p, p)) ?srcs)\<rparr>"
    by simp
  ultimately show ?thesis by simp
qed

lemma backup_tail_tars:
  "tars (snd (then_do (echo_info msg) (\<lambda>u. then_do (backup_cleanup e a b)
                (\<lambda>u. backup_upload e cfg bp fn)) w)) = tars w"
  by (intro then_do_tars echo_info_tars backup_cleanup_tars backup_upload_tars)

lemma backup_upload_off:
  "cfg ''BACKUP_ENABLED'' = None \<Longrightarrow> backup_upload e cfg bp fn w = (Inr (), w)"
  by (simp add: backup_upload_def dom_def)

lemma backup_all_ok:
  assumes "load e (ctx_root ctx) = Inr cfg"
    and "job_runner ctx cfg = Inr r"
    and "tool e (compose_vector (fs w) r (mongodb_command now)) (fs w) = (Inr rc1, fs1)"
    and "cfg ''MYSQL_ROOT_PASSWORD'' = Some pwd"
    and "tool e (compose_vector fs1 r (mysql_command pwd now)) fs1 = (Inr rc2, fs2)"
    and "cfg ''LMS_HOST'' = Some host"
    and "ensure_file_directory_exists e
           (data_path e (ctx_root ctx) [''backup'', backup_file_name host now]) fs2 = Inr fs3"
    and "set (backup_sources e (ctx_root ctx) now) \<subseteq>
           insert (data_path e (ctx_root ctx) [''backup'', backup_file_name host now]) fs3"
    and "subprocess_run e
           [''sudo'', ''rm'', ''-rf'',
            data_path e (ctx_root ctx) [''mongodb/dump_'' @ now @ ''.mongodb'']]
           (insert (data_path e (ctx_root ctx) [''backup'', backup_file_name host now]) fs3) =
         Inr fs4"
    and "os_remove_error e (data_path e (ctx_root ctx) [''mysql/dump_'' @ now @ ''.sql'']) fs4 =
         None"
    and "cfg ''BACKUP_ENABLED'' = None"
  shows "fst (backup e ctx now w) = Inr ()"
    and "echoed (snd (backup e ctx now w)) =
           echoed w @ [''Exported mongo databases successfully'',
                       ''Exported mysql databases successfully'',
                       ''Created backup file '' @ backup_file_name host now @ '' successfully'']"
    and "calls (snd (backup e ctx now w)) =
           calls w @ [compose_vector (fs w) r (mongodb_command now),
                      compose_vector fs1 r (mysql_command pwd now)]"
    and "uploads (snd (backup e ctx now w)) = uploads w"
  unfolding backup_archive_ok [OF assms(1-8)]
  using assms(9,10)
  by (simp_all add: then_do_def echo_info_def backup_cleanup_def remove_if_exists_def
      os_remove_def backup_upload_off [where cfg = cfg, OF assms(11)])

lemma sample_backup_facts:
  "tool (sample_env sample_config (exits_with rc) u) args (fs backup_world) =
     (Inr rc, fs backup_world)"
  "ensure_file_directory_exists (sample_env sample_config t u) file (fs backup_world) =
     Inr (fs backup_world)"
  "set (backup_sources (sample_env sample_config t u) ''/r'' ''20240101_000000'') \<subseteq>
     insert file (fs backup_world)"
  "subprocess_run (sample_env sample_config t u) [''sudo'', ''rm'', ''-rf'', dump] exist =
     Inr (exist - {dump})"
  by (simp_all add: sample_env_sel exits_with_def backup_sources_def backup_world_def
      empty_world_def)

lemma upload_config_sel:
  "upload_config ''BACKUP_ENABLED'' = Some (VBool True) \<and> truthy (VBool True) \<and>
   upload_config ''BACKUP_S3_ACCESS_KEY'' = Some (VStr ''AK'') \<and>
   upload_config ''BACKUP_S3_SECRET_KEY'' = Some (VStr ''SK'') \<and>
   upload_config ''BACKUP_S3_BUCKET_NAME'' = Some (VStr ''bucket'')"
  by (simp add: upload_config_def)

lemma sample_tool_fails:
  "service \<in> set args \<Longrightarrow>
   tool (sample_env c (fails_on service) u) args exist =
     (Inl (TutorError ''Command failed with status 1''), exist)"
  "service \<notin> set args \<Longrightarrow>
   tool (sample_env c (fails_on service) u) args exist = (Inr 0, exist)"
  by (simp_all add: sample_env_sel fails_on_def)

lemma sample_backup_vectors:
  "existing_file_args (fs backup_world) (docker_compose_files sample_runner) = []"
  "project_name sample_runner = ''tutor_dev''"
  "calls backup_world = []"
  "echoed backup_world = []"
  "fs (backup_world\<lparr>fs := x, calls := y\<rparr>) = x"
  by (simp_all add: existing_file_args_def dash_f_def sample_runner_def backup_world_def
      empty_world_def)

section \<open>Failure of an export\<close>

lemma backup_split:
  "backup e ctx now =
     then_do (lift (load e (ctx_root ctx))) (\<lambda>cfg.
     then_do (lift (job_runner ctx cfg)) (\<lambda>r.
     then_do (docker_compose e r (mongodb_command now)) (\<lambda>rc1.
     then_do (echo_info ''Exported mongo databases successfully'') (\<lambda>u.
     then_do (lift (getitem cfg ''MYSQL_ROOT_PASSWORD'')) (\<lambda>mysql_root_pwd.
     then_do (docker_compose e r (mysql_command mysql_root_pwd now)) (\<lambda>rc2.
     then_do (echo_info ''Exported mysql databases successfully'') (\<lambda>u.
     backup_after_exports e ctx now cfg)))))))"
  by (simp add: backup_def backup_after_exports_def mongodb_command_def mysql_command_def)

lemma docker_compose_delegate:
  "tool e (compose_vector (fs w) r command) (fs w) = (res, fs') \<Longrightarrow>
   docker_compose e r command w =
     (res, w\<lparr>fs := fs', calls := calls w @ [compose_vector (fs w) r command]\<rparr>)"
  unfolding compose_vector_def by (rule docker_compose_tool)

text \<open>
  Claim C6 says that the backup aborts when an export returns a non-zero exit code.
  \<open>backup\<close> does not look at what \<open>runner.docker_compose\<close> returns: when the delegate
  returns the status -9 of a process ended by a signal, for every invocation, the run
  ends normally, after printing the confirmations of both exports and of the archive.
\<close>

theorem backup_ignores_exit_code_counterexample:
  "fst (tool (sample_env sample_config (exits_with (- 9)) None)
          (compose_vector (fs backup_world) sample_runner (mongodb_command ''20240101_000000''))
          (fs backup_world)) = Inr (- 9) \<and>
   fst (backup (sample_env sample_config (exits_with (- 9)) None)
          (DevContext (sample_env sample_config (exits_with (- 9)) None) ''/r'')
          ''20240101_000000'' backup_world) = Inr () \<and>
   echoed (snd (backup (sample_env sample_config (exits_with (- 9)) None)
          (DevContext (sample_env sample_config (exits_with (- 9)) None) ''/r'')
          ''20240101_000000'' backup_world)) =
     [''Exported mongo databases successfully'',
      ''Exported mysql databases successfully'',
      ''Created backup file lms.example.com_20240101_000000.tar.gz successfully'']"
proof -
  let ?E = "sample_env sample_config (exits_with (- 9)) None"
  note r = backup_all_ok
      [where e = ?E and ctx = "DevContext ?E ''/r''" and w = backup_world
         and now = "''20240101_000000''", unfolded sample_dev_context(1),
       OF sample_load sample_dev_context(2) sample_backup_facts(1) sample_config_sel(5)
          sample_backup_facts(1) sample_config_sel(4) sample_backup_facts(2)
          sample_backup_facts(3) sample_backup_facts(4) sample_env_sel(11)
          sample_config_sel(6)]
  have "fst (tool ?E
          (compose_vector (fs backup_world) sample_runner (mongodb_command ''20240101_000000''))
          (fs backup_world)) = Inr (- 9)"
    by (simp add: sample_backup_facts(1))
  moreover have "echoed backup_world = []"
    by (simp add: backup_world_def empty_world_def)
  ultimately show ?thesis
    unfolding r(1) r(2) by (simp add: backup_file_name_def)
qed

text \<open>
  Claim C6, amended. In the backup, if the delegated invocation of the mongodb export
  or of the mysql export raises an error, as the delegate does for a positive exit
  status, the run ends with that error: nothing is invoked, printed or archived after
  the failed invocation, and no confirmation of the failed stage is printed. A status
  that an invocation returns is not looked at, for either export: whatever the two
  returned codes, both confirmations are printed and the run goes on with the
  archive, the removal of the dumps and the upload.
\<close>

theorem backup_aborts_when_export_raises:
  assumes "load e (ctx_root ctx) = Inr cfg"
    and "job_runner ctx cfg = Inr r"
  shows
    "(\<forall>err fs1.
        tool e (compose_vector (fs w) r (mongodb_command now)) (fs w) = (Inl err, fs1) \<longrightarrow>
        backup e ctx now w =
          (Inl err, w\<lparr>fs := fs1,
                       calls := calls w @ [compose_vector (fs w) r (mongodb_command now)]\<rparr>)) \<and>
     (\<forall>rc1 fs1 pwd err fs2.
        tool e (compose_vector (fs w) r (mongodb_command now)) (fs w) = (Inr rc1, fs1) \<and>
        cfg ''MYSQL_ROOT_PASSWORD'' = Some pwd \<and>
        tool e (compose_vector fs1 r (mysql_command pwd now)) fs1 = (Inl err, fs2) \<longrightarrow>
        backup e ctx now w =
          (Inl err, w\<lparr>fs := fs2,
                       calls := calls w @ [compose_vector (fs w) r (mongodb_command now),
                                           compose_vector fs1 r (mysql_command pwd now)],
                       echoed := echoed w @ [''Exported mongo databases successfully'']\<rparr>)) \<and>
     (\<forall>rc1 fs1 pwd rc2 fs2.
        tool e (compose_vector (fs w) r (mongodb_command now)) (fs w) = (Inr rc1, fs1) \<and>
        cfg ''MYSQL_ROOT_PASSWORD'' = Some pwd \<and>
        tool e (compose_vector fs1 r (mysql_command pwd now)) fs1 = (Inr rc2, fs2) \<longrightarrow>
        backup e ctx now w =
          backup_after_exports e ctx now cfg
            (w\<lparr>fs := fs2,
               calls := calls w @ [compose_vector (fs w) r (mongodb_command now),
                                   compose_vector fs1 r (mysql_command pwd now)],
               echoed := echoed w @ [''Exported mongo databases successfully'',
                                     ''Exported mysql databases successfully'']\<rparr>))"
proof -
  let ?v1 = "compose_vector (fs w) r (mongodb_command now)"
  have first: "backup e ctx now w = (Inl err, w\<lparr>fs := fs1, calls := calls w @ [?v1]\<rparr>)"
    if "tool e ?v1 (fs w) = (Inl err, fs1)" for err fs1
    using assms docker_compose_delegate [OF that]
    by (simp add: backup_split then_do_Inl)
  have later: "backup e ctx now w =
      then_do (docker_compose e r (mysql_command pwd now)) (\<lambda>rc2.
      then_do (echo_info ''Exported mysql databases successfully'') (\<lambda>u.
      backup_after_exports e ctx now cfg))
      (w\<lparr>fs := fs1, calls := calls w @ [?v1],
         echoed := echoed w @ [''Exported mongo databases successfully'']\<rparr>)"
    if a: "tool e ?v1 (fs w) = (Inr rc1, fs1)"
      and b: "cfg ''MYSQL_ROOT_PASSWORD'' = Some pwd"
    for rc1 fs1 pwd
    using assms b docker_compose_delegate [OF a]
    by (simp add: backup_split then_do_Inr then_do_echo getitem_def)
  have second: "backup e ctx now w =
      (Inl err, w\<lparr>fs := fs2,
                   calls := calls w @ [?v1, compose_vector fs1 r (mysql_command pwd now)],
                   echoed := echoed w @ [''Exported mongo databases successfully'']\<rparr>)"
    if a: "tool e ?v1 (fs w) = (Inr rc1, fs1)"
      and b: "cfg ''MYSQL_ROOT_PASSWORD'' = Some pwd"
      and c: "tool e (compose_vector fs1 r (mysql_command pwd now)) fs1 = (Inl err, fs2)"
    for rc1 fs1 pwd err fs2
  proof -
    let ?w2 = "w\<lparr>fs := fs1, calls := calls w @ [?v1],
                 echoed := echoed w @ [''Exported mongo databases successfully'']\<rparr>"
    have "tool e (compose_vector (fs ?w2) r (mysql_command pwd now)) (fs ?w2) = (Inl err, fs2)"
      using c by simp
    from docker_compose_delegate [OF this] show ?thesis
      unfolding later [OF a b] by (simp add: then_do_Inl)
  qed
  have third: "backup e ctx now w =
      backup_after_exports e ctx now cfg
        (w\<lparr>fs := fs2,
           calls := calls w @ [?v1, compose_vector fs1 r (mysql_command pwd now)],
           echoed := echoed w @ [''Exported mongo databases successfully'',
                                 ''Exported mysql databases successfully'']\<rparr>)"
    if a: "tool e ?v1 (fs w) = (Inr rc1, fs1)"
      and b: "cfg ''MYSQL_ROOT_PASSWORD'' = Some pwd"
      and c: "tool e (compose_vector fs1 r (mysql_command pwd now)) fs1 = (Inr rc2, fs2)"
    for rc1 fs1 pwd rc2 fs2
  proof -
    let ?w2 = "w\<lparr>fs := fs1, calls := calls w @ [?v1],
                 echoed := echoed w @ [''Exported mongo databases successfully'']\<rparr>"
    have "tool e (compose_vector (fs ?w2) r (mysql_command pwd now)) (fs ?w2) = (Inr rc2, fs2)"
      using c by simp
    from docker_compose_delegate [OF this]
    have "backup e ctx now w =
        backup_after_exports e ctx now cfg
          (?w2\<lparr>fs := fs2,
                calls := calls ?w2 @ [compose_vector (fs ?w2) r (mysql_command pwd now)],
                echoed := echoed ?w2 @ [''Exported mysql databases successfully'']\<rparr>)"
      unfolding later [OF a b] by (simp add: then_do_Inr then_do_echo)
    also have "\<dots> = backup_after_exports e ctx now cfg
        (w\<lparr>fs := fs2,
           calls := calls w @ [?v1, compose_vector fs1 r (mysql_command pwd now)],
           echoed := echoed w @ [''Exported mongo databases successfully'',
                                 ''Exported mysql databases successfully'']\<rparr>)"
      by (rule arg_cong [where f = "backup_after_exports e ctx now cfg"]) simp
    finally show ?thesis .
  qed
  show ?thesis
    using first second third by blast
qed

theorem backup_aborts_when_export_raises_witness:
  "fst (backup (sample_env sample_config (fails_on ''mongodb'') None)
          (DevContext (sample_env sample_config (fails_on ''mongodb'') None) ''/r'')
          ''20240101_000000'' backup_world) =
     Inl (TutorError ''Command failed with status 1'') \<and>
   echoed (snd (backup (sample_env sample_config (fails_on ''mongodb'') None)
          (DevContext (sample_env sample_config (fails_on ''mongodb'') None) ''/r'')
          ''20240101_000000'' backup_world)) = [] \<and>
   calls (snd (backup (sample_env sample_config (fails_on ''mongodb'') None)
          (DevContext (sample_env sample_config (fails_on ''mongodb'') None) ''/r'')
          ''20240101_000000'' backup_world)) =
     [[''--project-name'', ''tutor_dev'', ''exec'', ''mongodb'', ''mongodump'',
       ''--out=/data/db/dump_20240101_000000.mongodb'']] \<and>
   fst (backup (sample_env sample_config (fails_on ''mysql'') None)
          (DevContext (sample_env sample_config (fails_on ''mysql'') None) ''/r'')
          ''20240101_000000'' backup_world) =
     Inl (TutorError ''Command failed with status 1'') \<and>
   echoed (snd (backup (sample_env sample_config (fails_on ''mysql'') None)
          (DevContext (sample_env sample_config (fails_on ''mysql'') None) ''/r'')
          ''20240101_000000'' backup_world)) = [''Exported mongo databases successfully''] \<and>
   calls (snd (backup (sample_env sample_config (fails_on ''mysql'') None)
          (DevContext (sample_env sample_config (fails_on ''mysql'') None) ''/r'')
          ''20240101_000000'' backup_world)) =
     [[''--project-name'', ''tutor_dev'', ''exec'', ''mongodb'', ''mongodump'',
       ''--out=/data/db/dump_20240101_000000.mongodb''],
      [''--project-name'', ''tutor_dev'', ''exec'', ''mysql'', ''mysqldump'',
       ''--all-databases'', ''-u'', ''root'', ''--password=pw'',
       ''--result-file=/var/lib/mysql/dump_20240101_000000.sql'']] \<and>
   backup (sample_env sample_config (exits_with (- 9)) None)
          (DevContext (sample_env sample_config (exits_with (- 9)) None) ''/r'')
          ''20240101_000000'' backup_world =
     backup_after_exports (sample_env sample_config (exits_with (- 9)) None)
          (DevContext (sample_env sample_config (exits_with (- 9)) None) ''/r'')
          ''20240101_000000'' sample_config
       (backup_world\<lparr>fs := fs backup_world,
          calls := calls backup_world @
            [compose_vector (fs backup_world) sample_runner (mongodb_command ''20240101_000000''),
             compose_vector (fs backup_world) sample_runner
               (mysql_command (VStr ''pw'') ''20240101_000000'')],
          echoed := echoed backup_world @
            [''Exported mongo databases successfully'',
             ''Exported mysql databases successfully'']\<rparr>)"
proof -
  let ?A = "sample_env sample_config (fails_on ''mongodb'') None"
  let ?B = "sample_env sample_config (fails_on ''mysql'') None"
  let ?C = "sample_env sample_config (exits_with (- 9)) None"
  note a = backup_aborts_when_export_raises
             [where e = ?A and ctx = "DevContext ?A ''/r''" and w = backup_world
                and now = "''20240101_000000''", unfolded sample_dev_context(1),
              OF sample_load sample_dev_context(2), THEN conjunct1, rule_format]
  note b = backup_aborts_when_export_raises
             [where e = ?B and ctx = "DevContext ?B ''/r''" and w = backup_world
                and now = "''20240101_000000''", unfolded sample_dev_context(1),
              OF sample_load sample_dev_context(2), THEN conjunct2, THEN conjunct1,
              rule_format,
              where pwd = "VStr ''pw''" and ?fs1.0 = "fs backup_world" and ?rc1.0 = 0]
  note c = backup_aborts_when_export_raises
             [where e = ?C and ctx = "DevContext ?C ''/r''" and w = backup_world
                and now = "''20240101_000000''", unfolded sample_dev_context(1),
              OF sample_load sample_dev_context(2), THEN conjunct2, THEN conjunct2,
              rule_format,
              where pwd = "VStr ''pw''" and ?fs1.0 = "fs backup_world"
                and ?fs2.0 = "fs backup_world" and ?rc1.0 = "- 9" and ?rc2.0 = "- 9"]
  have a': "backup ?A (DevContext ?A ''/r'') ''20240101_000000'' backup_world =
              (Inl (TutorError ''Command failed with status 1''),
               backup_world\<lparr>fs := fs backup_world,
                 calls := calls backup_world @
                   [compose_vector (fs backup_world) sample_runner
                      (mongodb_command ''20240101_000000'')]\<rparr>)"
    by (rule a)
       (simp add: sample_tool_fails compose_vector_def mongodb_command_def)
  have b': "backup ?B (DevContext ?B ''/r'') ''20240101_000000'' backup_world =
              (Inl (TutorError ''Command failed with status 1''),
               backup_world\<lparr>fs := fs backup_world,
                 calls := calls backup_world @
                   [compose_vector (fs backup_world) sample_runner
                      (mongodb_command ''20240101_000000''),
                    compose_vector (fs backup_world) sample_runner
                      (mysql_command (VStr ''pw'') ''20240101_000000'')],
                 echoed := echoed backup_world @ [''Exported mongo databases successfully'']\<rparr>)"
    by (rule b)
       (simp add: sample_tool_fails sample_backup_vectors sample_config_sel compose_vector_def
          mongodb_command_def mysql_command_def)
  have c': "backup ?C (DevContext ?C ''/r'') ''20240101_000000'' backup_world =
     backup_after_exports ?C (DevContext ?C ''/r'') ''20240101_000000'' sample_config
       (backup_world\<lparr>fs := fs backup_world,
          calls := calls backup_world @
            [compose_vector (fs backup_world) sample_runner (mongodb_command ''20240101_000000''),
             compose_vector (fs backup_world) sample_runner
               (mysql_command (VStr ''pw'') ''20240101_000000'')],
          echoed := echoed backup_world @
            [''Exported mongo databases successfully'',
             ''Exported mysql databases successfully'']\<rparr>)"
    by (rule c) (simp add: sample_backup_facts(1) sample_config_sel)
  have "fst (backup ?A (DevContext ?A ''/r'') ''20240101_000000'' backup_world) =
          Inl (TutorError ''Command failed with status 1'')"
    and "echoed (snd (backup ?A (DevContext ?A ''/r'') ''20240101_000000'' backup_world)) = []"
    and "calls (snd (backup ?A (DevContext ?A ''/r'') ''20240101_000000'' backup_world)) =
     [[''--project-name'', ''tutor_dev'', ''exec'', ''mongodb'', ''mongodump'',
       ''--out=/data/db/dump_20240101_000000.mongodb'']]"
    and "fst (backup ?B (DevContext ?B ''/r'') ''20240101_000000'' backup_world) =
          Inl (TutorError ''Command failed with status 1'')"
    and "echoed (snd (backup ?B (DevContext ?B ''/r'') ''20240101_000000'' backup_world)) =
          [''Exported mongo databases successfully'']"
    and "calls (snd (backup ?B (DevContext ?B ''/r'') ''20240101_000000'' backup_world)) =
     [[''--project-name'', ''tutor_dev'', ''exec'', ''mongodb'', ''mongodump'',
       ''--out=/data/db/dump_20240101_000000.mongodb''],
      [''--project-name'', ''tutor_dev'', ''exec'', ''mysql'', ''mysqldump'',
       ''--all-databases'', ''-u'', ''root'', ''--password=pw'',
       ''--result-file=/var/lib/mysql/dump_20240101_000000.sql'']]"
    unfolding a' b'
    by (simp_all add: sample_backup_vectors compose_vector_def mongodb_command_def
        mysql_command_def)
  with c' show ?thesis by blast
qed

section \<open>The upload stage\<close>

text \<open>
  Claim C7 says that, when the upload fails because the credentials are rejected, the
  cause is logged. The \<open>try\<close> around the upload catches \<open>FileNotFoundError\<close> and
  \<open>NoCredentialsError\<close> (no credentials found) only: the exception boto3 raises when
  the storage service rejects the key goes up, and nothing is printed.
\<close>

theorem backup_upload_rejected_key_counterexample:
  "fst (backup_upload
          (sample_env upload_config (exits_with 0)
             (Some (OtherError ''S3UploadFailedError: InvalidAccessKeyId'')))
          upload_config ''/r/data/backup/a.tar.gz'' ''a.tar.gz'' archive_world) =
     Inl (OtherError ''S3UploadFailedError: InvalidAccessKeyId'') \<and>
   echoed (snd (backup_upload
          (sample_env upload_config (exits_with 0)
             (Some (OtherError ''S3UploadFailedError: InvalidAccessKeyId'')))
          upload_config ''/r/data/backup/a.tar.gz'' ''a.tar.gz'' archive_world)) = [] \<and>
   uploads (snd (backup_upload
          (sample_env upload_config (exits_with 0)
             (Some (OtherError ''S3UploadFailedError: InvalidAccessKeyId'')))
          upload_config ''/r/data/backup/a.tar.gz'' ''a.tar.gz'' archive_world)) =
     [(''/r/data/backup/a.tar.gz'', VStr ''bucket'', ''a.tar.gz'')]"
  by (simp add: backup_upload_def upload_config_def getitem_def dom_def sample_env_sel
      then_do_def archive_world_def empty_world_def)

text \<open>
  Claim C7, amended. In the upload stage: when \<open>BACKUP_ENABLED\<close> is absent or false,
  nothing is uploaded and the world, the archive with it, is left as it is; when it is
  true and the upload returns, the archive is removed (its removal not raising); when
  the upload raises because the archive file is missing (\<open>FileNotFoundError\<close>) or
  because no credentials are available (\<open>NoCredentialsError\<close>), the line naming that
  cause is printed and the filesystem is left as it is; any other exception of the
  upload, credentials rejected by the storage service among them, goes up: nothing is
  printed and the filesystem is left as it is.
\<close>

theorem backup_upload_stage:
  "(cfg ''BACKUP_ENABLED'' = None \<or> (\<exists>v. cfg ''BACKUP_ENABLED'' = Some v \<and> \<not> truthy v) \<longrightarrow>
      backup_upload e cfg backup_path file_name w = (Inr (), w)) \<and>
   (\<forall>enabled access secret bucket.
      cfg ''BACKUP_ENABLED'' = Some enabled \<and> truthy enabled \<and>
      cfg ''BACKUP_S3_ACCESS_KEY'' = Some access \<and>
      cfg ''BACKUP_S3_SECRET_KEY'' = Some secret \<and>
      cfg ''BACKUP_S3_BUCKET_NAME'' = Some bucket \<longrightarrow>
      (s3_upload_file e access secret backup_path bucket file_name (fs w) = None \<and>
       (backup_path \<in> fs w \<longrightarrow> os_remove_error e backup_path (fs w) = None) \<longrightarrow>
         backup_upload e cfg backup_path file_name w =
           (Inr (), w\<lparr>fs := fs w - {backup_path},
                        echoed := echoed w @
                          [''Uploaded backup file '' @ file_name @ '' to S3 successfully''],
                        uploads := uploads w @ [(backup_path, bucket, file_name)]\<rparr>)) \<and>
      (\<forall>x. s3_upload_file e access secret backup_path bucket file_name (fs w) =
              Some (FileNotFoundError x) \<longrightarrow>
         backup_upload e cfg backup_path file_name w =
           (Inr (), w\<lparr>echoed := echoed w @
                          [''The backup file '' @ file_name @ '' was not found''],
                        uploads := uploads w @ [(backup_path, bucket, file_name)]\<rparr>)) \<and>
      (s3_upload_file e access secret backup_path bucket file_name (fs w) =
              Some NoCredentialsError \<longrightarrow>
         backup_upload e cfg backup_path file_name w =
           (Inr (), w\<lparr>echoed := echoed w @ [''The S3 credential is not available''],
                        uploads := uploads w @ [(backup_path, bucket, file_name)]\<rparr>)) \<and>
      (\<forall>err. s3_upload_file e access secret backup_path bucket file_name (fs w) = Some err \<and>
             (\<forall>x. err \<noteq> FileNotFoundError x) \<and> err \<noteq> NoCredentialsError \<longrightarrow>
         backup_upload e cfg backup_path file_name w =
           (Inl err, w\<lparr>uploads := uploads w @ [(backup_path, bucket, file_name)]\<rparr>)))"
proof -
  have off: "backup_upload e cfg backup_path file_name w = (Inr (), w)"
    if "cfg ''BACKUP_ENABLED'' = None \<or> (\<exists>v. cfg ''BACKUP_ENABLED'' = Some v \<and> \<not> truthy v)"
    using that by (auto simp: backup_upload_def getitem_def dom_def)
  have on: "backup_upload e cfg backup_path file_name w =
      (case then_do
              (\<lambda>w1. case s3_upload_file e access secret backup_path bucket file_name (fs w1) of
                       None \<Rightarrow>
                         (Inr (), w1\<lparr>uploads := uploads w1 @ [(backup_path, bucket, file_name)]\<rparr>)
                     | Some err \<Rightarrow>
                         (Inl err, w1\<lparr>uploads := uploads w1 @ [(backup_path, bucket, file_name)]\<rparr>))
              (\<lambda>u. then_do
                      (echo_info (''Uploaded backup file '' @ file_name @ '' to S3 successfully''))
                      (\<lambda>u. remove_if_exists e backup_path)) w of
         (Inl err, w') \<Rightarrow>
           (case err of
              FileNotFoundError x \<Rightarrow>
                echo_info (''The backup file '' @ file_name @ '' was not found'') w'
            | NoCredentialsError \<Rightarrow> echo_info ''The S3 credential is not available'' w'
            | _ \<Rightarrow> (Inl err, w'))
       | (Inr u, w') \<Rightarrow> (Inr (), w'))"
    if "cfg ''BACKUP_ENABLED'' = Some enabled" "truthy enabled"
      "cfg ''BACKUP_S3_ACCESS_KEY'' = Some access"
      "cfg ''BACKUP_S3_SECRET_KEY'' = Some secret"
      "cfg ''BACKUP_S3_BUCKET_NAME'' = Some bucket"
    for enabled access secret bucket
    using that by (simp add: backup_upload_def getitem_def dom_def)
  have ok: "backup_upload e cfg backup_path file_name w =
           (Inr (), w\<lparr>fs := fs w - {backup_path},
                        echoed := echoed w @
                          [''Uploaded backup file '' @ file_name @ '' to S3 successfully''],
                        uploads := uploads w @ [(backup_path, bucket, file_name)]\<rparr>)"
    if k: "cfg ''BACKUP_ENABLED'' = Some enabled" "truthy enabled"
      "cfg ''BACKUP_S3_ACCESS_KEY'' = Some access"
      "cfg ''BACKUP_S3_SECRET_KEY'' = Some secret"
      "cfg ''BACKUP_S3_BUCKET_NAME'' = Some bucket"
      and u: "s3_upload_file e access secret backup_path bucket file_name (fs w) = None"
      and r: "backup_path \<in> fs w \<longrightarrow> os_remove_error e backup_path (fs w) = None"
    for enabled access secret bucket
    unfolding on [OF k] using u r
    by (simp add: then_do_def echo_info_def remove_if_exists_def os_remove_def)
  have raised: "backup_upload e cfg backup_path file_name w =
           (case err of
              FileNotFoundError x \<Rightarrow>
                echo_info (''The backup file '' @ file_name @ '' was not found'')
                  (w\<lparr>uploads := uploads w @ [(backup_path, bucket, file_name)]\<rparr>)
            | NoCredentialsError \<Rightarrow>
                echo_info ''The S3 credential is not available''
                  (w\<lparr>uploads := uploads w @ [(backup_path, bucket, file_name)]\<rparr>)
            | _ \<Rightarrow> (Inl err, w\<lparr>uploads := uploads w @ [(backup_path, bucket, file_name)]\<rparr>))"
    if k: "cfg ''BACKUP_ENABLED'' = Some enabled" "truthy enabled"
      "cfg ''BACKUP_S3_ACCESS_KEY'' = Some access"
      "cfg ''BACKUP_S3_SECRET_KEY'' = Some secret"
      "cfg ''BACKUP_S3_BUCKET_NAME'' = Some bucket"
      and u: "s3_upload_file e access secret backup_path bucket file_name (fs w) = Some err"
    for enabled access secret bucket err
    unfolding on [OF k] using u by (simp add: then_do_def)
  have other: "backup_upload e cfg backup_path file_name w =
           (Inl err, w\<lparr>uploads := uploads w @ [(backup_path, bucket, file_name)]\<rparr>)"
    if k: "cfg ''BACKUP_ENABLED'' = Some enabled" "truthy enabled"
      "cfg ''BACKUP_S3_ACCESS_KEY'' = Some access"
      "cfg ''BACKUP_S3_SECRET_KEY'' = Some secret"
      "cfg ''BACKUP_S3_BUCKET_NAME'' = Some bucket"
      and u: "s3_upload_file e access secret backup_path bucket file_name (fs w) = Some err"
      and n: "\<forall>x. err \<noteq> FileNotFoundError x" "err \<noteq> NoCredentialsError"
    for enabled access secret bucket err
    unfolding raised [OF k u] using n by (cases err) simp_all
  show ?thesis
    using off ok other raised
    by (auto simp: echo_info_def)
qed

theorem backup_upload_stage_witness:
  "backup_upload (sample_env sample_config (exits_with 0) None) sample_config
     ''/r/data/backup/a.tar.gz'' ''a.tar.gz'' archive_world = (Inr (), archive_world) \<and>
   fs (snd (backup_upload (sample_env upload_config (exits_with 0) None) upload_config
     ''/r/data/backup/a.tar.gz'' ''a.tar.gz'' archive_world)) = {} \<and>
   uploads (snd (backup_upload (sample_env upload_config (exits_with 0) None) upload_config
     ''/r/data/backup/a.tar.gz'' ''a.tar.gz'' archive_world)) =
     [(''/r/data/backup/a.tar.gz'', VStr ''bucket'', ''a.tar.gz'')] \<and>
   fs (snd (backup_upload
     (sample_env upload_config (exits_with 0) (Some (FileNotFoundError ''No such file'')))
     upload_config ''/r/data/backup/a.tar.gz'' ''a.tar.gz'' archive_world)) =
     {''/r/data/backup/a.tar.gz''} \<and>
   echoed (snd (backup_upload
     (sample_env upload_config (exits_with 0) (Some (FileNotFoundError ''No such file'')))
     upload_config ''/r/data/backup/a.tar.gz'' ''a.tar.gz'' archive_world)) =
     [''The backup file a.tar.gz was not found''] \<and>
   fs (snd (backup_upload (sample_env upload_config (exits_with 0) (Some NoCredentialsError))
     upload_config ''/r/data/backup/a.tar.gz'' ''a.tar.gz'' archive_world)) =
     {''/r/data/backup/a.tar.gz''} \<and>
   echoed (snd (backup_upload (sample_env upload_config (exits_with 0) (Some NoCredentialsError))
     upload_config ''/r/data/backup/a.tar.gz'' ''a.tar.gz'' archive_world)) =
     [''The S3 credential is not available''] \<and>
   backup_upload
     (sample_env upload_config (exits_with 0) (Some (OtherError ''S3UploadFailedError'')))
     upload_config ''/r/data/backup/a.tar.gz'' ''a.tar.gz'' archive_world =
     (Inl (OtherError ''S3UploadFailedError''),
      archive_world\<lparr>uploads := uploads archive_world @
         [(''/r/data/backup/a.tar.gz'', VStr ''bucket'', ''a.tar.gz'')]\<rparr>)"
proof -
  let ?bp = "''/r/data/backup/a.tar.gz''"
  let ?fn = "''a.tar.gz''"
  have off: "sample_config ''BACKUP_ENABLED'' = None \<or>
             (\<exists>v. sample_config ''BACKUP_ENABLED'' = Some v \<and> \<not> truthy v)"
    by (simp add: sample_config_sel)
  have returns: "s3_upload_file (sample_env upload_config (exits_with 0) None)
                   (VStr ''AK'') (VStr ''SK'') ?bp (VStr ''bucket'') ?fn (fs archive_world) = None \<and>
                 (?bp \<in> fs archive_world \<longrightarrow>
                  os_remove_error (sample_env upload_config (exits_with 0) None) ?bp
                    (fs archive_world) = None)"
    by (simp add: sample_env_sel)
  have rejected: "s3_upload_file
                    (sample_env upload_config (exits_with 0)
                       (Some (OtherError ''S3UploadFailedError'')))
                    (VStr ''AK'') (VStr ''SK'') ?bp (VStr ''bucket'') ?fn (fs archive_world) =
                    Some (OtherError ''S3UploadFailedError'') \<and>
                  (\<forall>x. OtherError ''S3UploadFailedError'' \<noteq> FileNotFoundError x) \<and>
                  OtherError ''S3UploadFailedError'' \<noteq> NoCredentialsError"
    by (simp add: sample_env_sel)
  note a = backup_upload_stage
             [where cfg = sample_config and w = archive_world and backup_path = ?bp
                and file_name = ?fn and e = "sample_env sample_config (exits_with 0) None",
              THEN conjunct1, THEN mp, OF off]
  note ok = backup_upload_stage
             [where cfg = upload_config and w = archive_world and backup_path = ?bp
                and file_name = ?fn and e = "sample_env upload_config (exits_with 0) None",
              THEN conjunct2, THEN spec, THEN spec, THEN spec, THEN spec, THEN mp,
              OF upload_config_sel, THEN conjunct1, THEN mp, OF returns]
  note nf = backup_upload_stage
             [where cfg = upload_config and w = archive_world and backup_path = ?bp
                and file_name = ?fn
                and e = "sample_env upload_config (exits_with 0)
                           (Some (FileNotFoundError ''No such file''))",
              THEN conjunct2, THEN spec, THEN spec, THEN spec, THEN spec, THEN mp,
              OF upload_config_sel, THEN conjunct2, THEN conjunct1, THEN spec, THEN mp,
              OF sample_env_sel(10)]
  note nc = backup_upload_stage
             [where cfg = upload_config and w = archive_world and backup_path = ?bp
                and file_name = ?fn
                and e = "sample_env upload_config (exits_with 0) (Some NoCredentialsError)",
              THEN conjunct2, THEN spec, THEN spec, THEN spec, THEN spec, THEN mp,
              OF upload_config_sel, THEN conjunct2, THEN conjunct2, THEN conjunct1, THEN mp,
              OF sample_env_sel(10)]
  note rj = backup_upload_stage
             [where cfg = upload_config and w = archive_world and backup_path = ?bp
                and file_name = ?fn
                and e = "sample_env upload_config (exits_with 0)
                           (Some (OtherError ''S3UploadFailedError''))",
              THEN conjunct2, THEN spec, THEN spec, THEN spec, THEN spec, THEN mp,
              OF upload_config_sel, THEN conjunct2, THEN conjunct2, THEN conjunct2,
              THEN spec, THEN mp, OF rejected]
  show ?thesis
    unfolding a ok nf nc rj by (simp add: archive_world_def empty_world_def)
qed

section \<open>The archive\<close>

text \<open>
  Claim C8. When both exports return and the six source items exist, the archive
  written by the backup is at \<open><host>_<timestamp>.tar.gz\<close> in the backup directory,
  \<open>host\<close> being the value of \<open>LMS_HOST\<close> and the timestamp the one read at the start;
  it holds one member for each source item (the two dumps, the three data
  directories, the configuration file), in that order, named by the base name of the
  item, and no member name contains a slash. This holds whatever the cleanup and the
  upload do afterwards.
\<close>

theorem backup_archive_entries:
  assumes "load e (ctx_root ctx) = Inr cfg"
    and "job_runner ctx cfg = Inr r"
    and "tool e (compose_vector (fs w) r (mongodb_command now)) (fs w) = (Inr rc1, fs1)"
    and "cfg ''MYSQL_ROOT_PASSWORD'' = Some pwd"
    and "tool e (compose_vector fs1 r (mysql_command pwd now)) fs1 = (Inr rc2, fs2)"
    and "cfg ''LMS_HOST'' = Some host"
    and "ensure_file_directory_exists e
           (data_path e (ctx_root ctx) [''backup'', py_str host @ ''_'' @ now @ ''.tar.gz''])
           fs2 = Inr fs3"
    and "set (backup_sources e (ctx_root ctx) now) \<subseteq>
           insert (data_path e (ctx_root ctx)
                     [''backup'', py_str host @ ''_'' @ now @ ''.tar.gz'']) fs3"
  shows "tars (snd (backup e ctx now w))
           (data_path e (ctx_root ctx) [''backup'', py_str host @ ''_'' @ now @ ''.tar.gz'']) =
           Some (map (\<lambda>p. (basename p, p)) (backup_sources e (ctx_root ctx) now)) \<and>
         length (backup_sources e (ctx_root ctx) now) = 6 \<and>
         list_all (\<lambda>p. CHR ''/'' \<notin> set (basename p)) (backup_sources e (ctx_root ctx) now)"
proof -
  have fn: "py_str host @ ''_'' @ now @ ''.tar.gz'' = backup_file_name host now"
    by (simp add: backup_file_name_def)
  have "tars (snd (backup e ctx now w))
           (data_path e (ctx_root ctx) [''backup'', backup_file_name host now]) =
           Some (map (\<lambda>p. (basename p, p)) (backup_sources e (ctx_root ctx) now))"
    unfolding backup_archive_ok [OF assms(1-6) assms(7,8) [unfolded fn]] backup_tail_tars
    by simp
  moreover have "length (backup_sources e (ctx_root ctx) now) = 6"
    by (simp add: backup_sources_def)
  moreover have "list_all (\<lambda>p. CHR ''/'' \<notin> set (basename p))
                   (backup_sources e (ctx_root ctx) now)"
    by (simp add: list_all_iff basename_no_slash)
  ultimately show ?thesis unfolding fn by blast
qed

theorem backup_archive_entries_witness:
  "tars (snd (backup (sample_env sample_config (exits_with 0) None)
          (DevContext (sample_env sample_config (exits_with 0) None) ''/r'')
          ''20240101_000000'' backup_world))
     ''/r/data/backup/lms.example.com_20240101_000000.tar.gz'' =
     Some [(''dump_20240101_000000.mongodb'', ''/r/data/mongodb/dump_20240101_000000.mongodb''),
           (''dump_20240101_000000.sql'', ''/r/data/mysql/dump_20240101_000000.sql''),
           (''cms'', ''/r/data/cms''), (''lms'', ''/r/data/lms''),
           (''openedx-media'', ''/r/data/openedx-media''),
           (''config.yml'', ''/r/config.yml'')]"
proof -
  let ?E = "sample_env sample_config (exits_with 0) None"
  note t = backup_archive_entries [where e = ?E and ctx = "DevContext ?E ''/r''" and w = backup_world
                 and now = "''20240101_000000''", unfolded sample_dev_context(1),
               OF sample_load sample_dev_context(2) sample_backup_facts(1) sample_config_sel(5)
                  sample_backup_facts(1) sample_config_sel(4) sample_backup_facts(2)
                  sample_backup_facts(3), THEN conjunct1]
  show ?thesis
    using t by (simp add: sample_env_sel backup_sources_def basename_def)
qed

end
